theory Spec2Isabelle
  imports Main
begin

section \<open>Data model of the background service worker\<close>

text \<open>
  The model follows \<^verbatim>\<open>src/background.js\<close>. The module-level variables
  \<^verbatim>\<open>settings\<close>, \<^verbatim>\<open>transport\<close> and \<^verbatim>\<open>connectionStatus\<close> are fields of one
  record; transport objects live in a store and are referred to by their index, because
  the callbacks of a socket, a timer or a request keep a reference to the object that
  created them, also after the manager dropped it. The browser side (sockets, timers,
  requests in flight, native ports) is part of the state, and the browser's callbacks are
  events. Every call into a browser API and every call of the manager into a transport is
  recorded in a trace, by the id of the socket, timer, request or port it concerns.
  Timestamps of messages are left out: no clock is modelled.
\<close>

datatype status = Disconnected | Connecting | Connected

datatype readyState = CONNECTING | OPEN | CLOSING | CLOSED

datatype message = Subtitle string | ConnectedMsg | DisconnectedMsg | HeartbeatMsg

record config =
  enabled :: bool
  transportType :: string
  wsUrl :: string
  httpUrl :: string
  nativeHost :: string

text \<open>The settings object of an \<^verbatim>\<open>updateSettings\<close> message: a field that the
  object does not have reads as \<^verbatim>\<open>undefined\<close>, here \<open>None\<close>.\<close>

record update =
  new_enabled :: "bool option"
  new_transportType :: "string option"
  new_wsUrl :: "string option"
  new_httpUrl :: "string option"
  new_nativeHost :: "string option"

record ws_transport =
  ws_url :: string
  ws :: "nat option"
  reconnectAttempts :: nat
  heartbeatInterval :: "nat option"
  reconnectTimeout :: "nat option"

record http_transport =
  http_url :: string

record native_transport =
  hostName :: string
  port :: "nat option"

datatype transport_obj =
    WebSocketTransport ws_transport
  | HttpTransport http_transport
  | NativeTransport native_transport

text \<open>What a pending timer runs when it fires: the reconnect closure and the heartbeat
  closure of a socket transport, the continuation of the retry loop of a request (the
  transport, the next attempt and the message), the \<^verbatim>\<open>resolve\<close> of a plain wait.\<close>

datatype callback =
    ReconnectCb nat
  | HeartbeatCb nat
  | RetryCb nat nat message
  | ResolveCb

record timer =
  tid :: nat
  cb :: callback
  delay :: nat

record fetch =
  fid :: nat
  f_owner :: nat
  f_attempt :: nat
  f_msg :: message

datatype effect =
    Badge status
  | StorageSet
  | CallConnect nat
  | CallDisconnect nat
  | CallSend nat message
  | NewWebSocket nat
  | WsSend nat message
  | WsClose nat
  | SetTimeout nat nat
  | ClearTimeout nat
  | SetInterval nat nat
  | ClearInterval nat
  | Fetch nat message
  | ConnectNative nat
  | PostMessage nat message
  | PortDisconnect nat

record world =
  settings :: config
  transport :: "nat option"
  connectionStatus :: status
  objs :: "transport_obj list"
  socks :: "(nat \<times> readyState) list"
  ports :: "(nat \<times> bool) list"
  timers :: "timer list"
  nextTimer :: nat
  fetches :: "fetch list"
  nextFetch :: nat
  trace :: "effect list"

text \<open>The browser functions the code calls and that can throw: the \<^verbatim>\<open>WebSocket\<close>
  constructor, the \<^verbatim>\<open>URL\<close> constructor and \<^verbatim>\<open>chrome.runtime.connectNative\<close>. They are
  parameters of the model: each says for which argument the call returns normally.\<close>

record platform =
  wsUrlOk :: "string \<Rightarrow> bool"
  urlOk :: "string \<Rightarrow> bool"
  connectNativeOk :: "string \<Rightarrow> bool"

definition maxReconnectAttempts :: nat where
  "maxReconnectAttempts = 3"

definition maxReconnectDelay :: nat where
  "maxReconnectDelay = 30000"

definition maxRetries :: nat where
  "maxRetries = 3"

definition defaultSettings :: config where
  "defaultSettings = \<lparr> enabled = True, transportType = ''websocket'',
     wsUrl = ''ws://localhost:8767'', httpUrl = ''http://localhost:8080/subtitle'',
     nativeHost = ''com.subtitle.streamer'' \<rparr>"

definition init :: world where
  "init = \<lparr> settings = defaultSettings, transport = None, connectionStatus = Disconnected,
     objs = [], socks = [], ports = [], timers = [], nextTimer = 1,
     fetches = [], nextFetch = 0, trace = [] \<rparr>"

section \<open>Primitives\<close>

definition emit :: "effect \<Rightarrow> world \<Rightarrow> world" where
  "emit e w = w\<lparr>trace := trace w @ [e]\<rparr>"

definition updateBadge :: "status \<Rightarrow> world \<Rightarrow> world" where
  "updateBadge st w = w\<lparr>connectionStatus := st, trace := trace w @ [Badge st]\<rparr>"

definition getObj :: "nat \<Rightarrow> world \<Rightarrow> transport_obj option" where
  "getObj r w = (if r < length (objs w) then Some (objs w ! r) else None)"

definition getWS :: "nat \<Rightarrow> world \<Rightarrow> ws_transport option" where
  "getWS r w = (case getObj r w of Some (WebSocketTransport t) \<Rightarrow> Some t | _ \<Rightarrow> None)"

definition getHTTP :: "nat \<Rightarrow> world \<Rightarrow> http_transport option" where
  "getHTTP r w = (case getObj r w of Some (HttpTransport t) \<Rightarrow> Some t | _ \<Rightarrow> None)"

definition getNative :: "nat \<Rightarrow> world \<Rightarrow> native_transport option" where
  "getNative r w = (case getObj r w of Some (NativeTransport t) \<Rightarrow> Some t | _ \<Rightarrow> None)"

definition modWS :: "nat \<Rightarrow> (ws_transport \<Rightarrow> ws_transport) \<Rightarrow> world \<Rightarrow> world" where
  "modWS r f w = (case getWS r w of None \<Rightarrow> w
     | Some t \<Rightarrow> w\<lparr>objs := (objs w)[r := WebSocketTransport (f t)]\<rparr>)"

definition modNative :: "nat \<Rightarrow> (native_transport \<Rightarrow> native_transport) \<Rightarrow> world \<Rightarrow> world" where
  "modNative r f w = (case getNative r w of None \<Rightarrow> w
     | Some t \<Rightarrow> w\<lparr>objs := (objs w)[r := NativeTransport (f t)]\<rparr>)"

definition sockState :: "nat \<Rightarrow> world \<Rightarrow> readyState option" where
  "sockState s w = (if s < length (socks w) then Some (snd (socks w ! s)) else None)"

definition sockOwner :: "nat \<Rightarrow> world \<Rightarrow> nat option" where
  "sockOwner s w = (if s < length (socks w) then Some (fst (socks w ! s)) else None)"

definition setSockState :: "nat \<Rightarrow> readyState \<Rightarrow> world \<Rightarrow> world" where
  "setSockState s st w =
     (if s < length (socks w) then w\<lparr>socks := (socks w)[s := (fst (socks w ! s), st)]\<rparr> else w)"

definition portConnected :: "nat \<Rightarrow> world \<Rightarrow> bool" where
  "portConnected p w = (p < length (ports w) \<and> snd (ports w ! p))"

text \<open>\<^verbatim>\<open>setTimeout\<close> and \<^verbatim>\<open>setInterval\<close> hand out the next timer id;
  \<^verbatim>\<open>clearTimeout\<close> and \<^verbatim>\<open>clearInterval\<close> drop the timer with that id.\<close>

definition addTimer :: "callback \<Rightarrow> nat \<Rightarrow> world \<Rightarrow> world" where
  "addTimer c d w = w\<lparr>timers := timers w @ [\<lparr>tid = nextTimer w, cb = c, delay = d\<rparr>],
     nextTimer := Suc (nextTimer w)\<rparr>"

definition dropTimer :: "nat \<Rightarrow> world \<Rightarrow> world" where
  "dropTimer i w = w\<lparr>timers := filter (\<lambda>t. tid t \<noteq> i) (timers w)\<rparr>"

definition setTimeout :: "callback \<Rightarrow> nat \<Rightarrow> world \<Rightarrow> world" where
  "setTimeout c d w = emit (SetTimeout (nextTimer w) d) (addTimer c d w)"

definition setInterval :: "callback \<Rightarrow> nat \<Rightarrow> world \<Rightarrow> world" where
  "setInterval c d w = emit (SetInterval (nextTimer w) d) (addTimer c d w)"

definition clearTimeout :: "nat \<Rightarrow> world \<Rightarrow> world" where
  "clearTimeout i w = emit (ClearTimeout i) (dropTimer i w)"

definition clearInterval :: "nat \<Rightarrow> world \<Rightarrow> world" where
  "clearInterval i w = emit (ClearInterval i) (dropTimer i w)"

section \<open>WebSocketTransport\<close>

definition ws_send :: "nat \<Rightarrow> message \<Rightarrow> world \<Rightarrow> world" where
  "ws_send r m w = (case getWS r w of None \<Rightarrow> w
     | Some t \<Rightarrow> (case ws t of None \<Rightarrow> w
         | Some s \<Rightarrow> if sockState s w = Some OPEN then emit (WsSend s m) w else w))"

definition stopHeartbeat :: "nat \<Rightarrow> world \<Rightarrow> world" where
  "stopHeartbeat r w = (case getWS r w of None \<Rightarrow> w
     | Some t \<Rightarrow> (case heartbeatInterval t of None \<Rightarrow> w
         | Some i \<Rightarrow> modWS r (\<lambda>t. t\<lparr>heartbeatInterval := None\<rparr>) (clearInterval i w)))"

definition startHeartbeat :: "nat \<Rightarrow> world \<Rightarrow> world" where
  "startHeartbeat r w = (case getWS r w of None \<Rightarrow> w
     | Some t \<Rightarrow>
         let w1 = stopHeartbeat r w
         in modWS r (\<lambda>t. t\<lparr>heartbeatInterval := Some (nextTimer w1)\<rparr>)
              (setInterval (HeartbeatCb r) 30000 w1))"

definition reconnectDelay :: "nat \<Rightarrow> nat" where
  "reconnectDelay attempts = min (1000 * 2 ^ attempts) maxReconnectDelay"

definition scheduleReconnect :: "nat \<Rightarrow> world \<Rightarrow> world" where
  "scheduleReconnect r w = (case getWS r w of None \<Rightarrow> w
     | Some t \<Rightarrow>
         if reconnectTimeout t \<noteq> None then w
         else if reconnectAttempts t \<ge> maxReconnectAttempts then updateBadge Disconnected w
         else modWS r (\<lambda>t. t\<lparr>reconnectTimeout := Some (nextTimer w)\<rparr>)
                (setTimeout (ReconnectCb r) (reconnectDelay (reconnectAttempts t)) w))"

definition ws_connect :: "platform \<Rightarrow> nat \<Rightarrow> world \<Rightarrow> world" where
  "ws_connect P r w = (case getWS r w of None \<Rightarrow> w
     | Some t \<Rightarrow>
         let w1 = updateBadge Connecting w
         in if wsUrlOk P (ws_url t)
            then modWS r (\<lambda>t. t\<lparr>ws := Some (length (socks w1))\<rparr>)
                   (emit (NewWebSocket (length (socks w1)))
                      (w1\<lparr>socks := socks w1 @ [(r, CONNECTING)]\<rparr>))
            else scheduleReconnect r (updateBadge Disconnected w1))"

definition ws_onopen :: "nat \<Rightarrow> world \<Rightarrow> world" where
  "ws_onopen r w =
     startHeartbeat r
       (ws_send r ConnectedMsg
          (modWS r (\<lambda>t. t\<lparr>reconnectAttempts := 0\<rparr>) (updateBadge Connected w)))"

definition ws_onclose :: "nat \<Rightarrow> world \<Rightarrow> world" where
  "ws_onclose r w = scheduleReconnect r (stopHeartbeat r (updateBadge Disconnected w))"

definition ws_onerror :: "nat \<Rightarrow> world \<Rightarrow> world" where
  "ws_onerror r w = updateBadge Disconnected w"

text \<open>The closure given to \<^verbatim>\<open>setTimeout\<close> in \<^verbatim>\<open>scheduleReconnect\<close>.\<close>

definition reconnectFired :: "platform \<Rightarrow> nat \<Rightarrow> world \<Rightarrow> world" where
  "reconnectFired P r w =
     ws_connect P r
       (modWS r (\<lambda>t. t\<lparr>reconnectTimeout := None, reconnectAttempts := Suc (reconnectAttempts t)\<rparr>) w)"

definition heartbeatFired :: "nat \<Rightarrow> world \<Rightarrow> world" where
  "heartbeatFired r w = ws_send r HeartbeatMsg w"

text \<open>\<^verbatim>\<open>ws.close()\<close>: a socket that is connecting or open starts closing; the close
  event comes later, as an event of the browser.\<close>

definition sockClose :: "nat \<Rightarrow> world \<Rightarrow> world" where
  "sockClose s w =
     emit (WsClose s)
       (if sockState s w = Some CONNECTING \<or> sockState s w = Some OPEN
        then setSockState s CLOSING w else w)"

definition ws_disconnect :: "nat \<Rightarrow> world \<Rightarrow> world" where
  "ws_disconnect r w = (case getWS r w of None \<Rightarrow> w
     | Some t \<Rightarrow>
         let w1 = (case reconnectTimeout t of None \<Rightarrow> w
                   | Some i \<Rightarrow> modWS r (\<lambda>t. t\<lparr>reconnectTimeout := None\<rparr>) (clearTimeout i w));
             w2 = stopHeartbeat r w1;
             w3 = (case ws t of None \<Rightarrow> w2
                   | Some s \<Rightarrow>
                       modWS r (\<lambda>t. t\<lparr>ws := None\<rparr>)
                         (sockClose s
                            (if sockState s w2 = Some OPEN
                             then ws_send r DisconnectedMsg w2 else w2)))
         in updateBadge Disconnected w3)"

section \<open>HttpTransport\<close>

text \<open>\<^verbatim>\<open>send\<close> is an \<^verbatim>\<open>async\<close> loop. It runs until the first \<^verbatim>\<open>await\<close>: the request
  is in flight, and the loop goes on when the browser settles it (with an ok response,
  with another response, or by rejecting) and, after a rejection that is not the last
  attempt, when the wait of \<^verbatim>\<open>1000 * (attempt + 1)\<close> is over.\<close>

definition http_attempt :: "nat \<Rightarrow> nat \<Rightarrow> message \<Rightarrow> world \<Rightarrow> world" where
  "http_attempt r attempt m w = (case getHTTP r w of None \<Rightarrow> w
     | Some t \<Rightarrow>
         emit (Fetch (nextFetch w) m)
           (w\<lparr>fetches := fetches w @
                 [\<lparr>fid = nextFetch w, f_owner = r, f_attempt = attempt, f_msg = m\<rparr>],
              nextFetch := Suc (nextFetch w)\<rparr>))"

definition http_loop :: "nat \<Rightarrow> nat \<Rightarrow> message \<Rightarrow> world \<Rightarrow> world" where
  "http_loop r attempt m w = (if attempt < maxRetries then http_attempt r attempt m w else w)"

definition http_send :: "nat \<Rightarrow> message \<Rightarrow> world \<Rightarrow> world" where
  "http_send r m w = http_loop r 0 m w"

definition http_ok :: "fetch \<Rightarrow> world \<Rightarrow> world" where
  "http_ok f w = (if connectionStatus w \<noteq> Connected then updateBadge Connected w else w)"

definition http_notok :: "fetch \<Rightarrow> world \<Rightarrow> world" where
  "http_notok f w = http_loop (f_owner f) (Suc (f_attempt f)) (f_msg f) w"

definition http_threw :: "fetch \<Rightarrow> world \<Rightarrow> world" where
  "http_threw f w =
     (if f_attempt f = maxRetries - 1
      then http_loop (f_owner f) (Suc (f_attempt f)) (f_msg f) (updateBadge Disconnected w)
      else setTimeout (RetryCb (f_owner f) (Suc (f_attempt f)) (f_msg f))
             (1000 * (f_attempt f + 1)) w)"

definition http_connect :: "platform \<Rightarrow> nat \<Rightarrow> world \<Rightarrow> world" where
  "http_connect P r w = (case getHTTP r w of None \<Rightarrow> w
     | Some t \<Rightarrow>
         if urlOk P (http_url t)
         then http_send r ConnectedMsg (updateBadge Connected w)
         else updateBadge Disconnected w)"

definition http_disconnect :: "nat \<Rightarrow> world \<Rightarrow> world" where
  "http_disconnect r w = updateBadge Disconnected (http_send r DisconnectedMsg w)"

section \<open>NativeTransport\<close>

text \<open>\<^verbatim>\<open>port.postMessage\<close> throws on a port that is disconnected.\<close>

definition native_send :: "nat \<Rightarrow> message \<Rightarrow> world \<Rightarrow> world" where
  "native_send r m w = (case getNative r w of None \<Rightarrow> w
     | Some t \<Rightarrow> (case port t of None \<Rightarrow> w
         | Some p \<Rightarrow> if portConnected p w then emit (PostMessage p m) w
                     else updateBadge Disconnected w))"

definition native_connect :: "platform \<Rightarrow> nat \<Rightarrow> world \<Rightarrow> world" where
  "native_connect P r w = (case getNative r w of None \<Rightarrow> w
     | Some t \<Rightarrow>
         let w1 = updateBadge Connecting w
         in if connectNativeOk P (hostName t)
            then native_send r ConnectedMsg
                   (updateBadge Connected
                      (modNative r (\<lambda>t. t\<lparr>port := Some (length (ports w1))\<rparr>)
                         (emit (ConnectNative (length (ports w1)))
                            (w1\<lparr>ports := ports w1 @ [(r, True)]\<rparr>))))
            else updateBadge Disconnected w1)"

definition native_onDisconnect :: "nat \<Rightarrow> world \<Rightarrow> world" where
  "native_onDisconnect r w = updateBadge Disconnected w"

definition portDisconnect :: "nat \<Rightarrow> world \<Rightarrow> world" where
  "portDisconnect p w =
     emit (PortDisconnect p)
       (if p < length (ports w) then w\<lparr>ports := (ports w)[p := (fst (ports w ! p), False)]\<rparr>
        else w)"

definition native_disconnect :: "nat \<Rightarrow> world \<Rightarrow> world" where
  "native_disconnect r w = (case getNative r w of None \<Rightarrow> w
     | Some t \<Rightarrow>
         updateBadge Disconnected
           (case port t of None \<Rightarrow> w
            | Some p \<Rightarrow>
                modNative r (\<lambda>t. t\<lparr>port := None\<rparr>)
                  (portDisconnect p (native_send r DisconnectedMsg w))))"

section \<open>The manager\<close>

definition transport_connect :: "platform \<Rightarrow> nat \<Rightarrow> world \<Rightarrow> world" where
  "transport_connect P r w = (case getObj r w of None \<Rightarrow> w
     | Some (WebSocketTransport t) \<Rightarrow> ws_connect P r w
     | Some (HttpTransport t) \<Rightarrow> http_connect P r w
     | Some (NativeTransport t) \<Rightarrow> native_connect P r w)"

definition transport_disconnect :: "nat \<Rightarrow> world \<Rightarrow> world" where
  "transport_disconnect r w = (case getObj r w of None \<Rightarrow> w
     | Some (WebSocketTransport t) \<Rightarrow> ws_disconnect r w
     | Some (HttpTransport t) \<Rightarrow> http_disconnect r w
     | Some (NativeTransport t) \<Rightarrow> native_disconnect r w)"

definition transport_send :: "nat \<Rightarrow> message \<Rightarrow> world \<Rightarrow> world" where
  "transport_send r m w = (case getObj r w of None \<Rightarrow> w
     | Some (WebSocketTransport t) \<Rightarrow> ws_send r m w
     | Some (HttpTransport t) \<Rightarrow> http_send r m w
     | Some (NativeTransport t) \<Rightarrow> native_send r m w)"

definition disconnectTransport :: "world \<Rightarrow> world" where
  "disconnectTransport w =
     updateBadge Disconnected
       (case transport w of None \<Rightarrow> w
        | Some r \<Rightarrow> (transport_disconnect r (emit (CallDisconnect r) w))\<lparr>transport := None\<rparr>)"

definition newTransport :: "config \<Rightarrow> transport_obj option" where
  "newTransport s =
     (if transportType s = ''websocket''
      then Some (WebSocketTransport \<lparr>ws_url = wsUrl s, ws = None, reconnectAttempts = 0,
                   heartbeatInterval = None, reconnectTimeout = None\<rparr>)
      else if transportType s = ''http'' then Some (HttpTransport \<lparr>http_url = httpUrl s\<rparr>)
      else if transportType s = ''native''
      then Some (NativeTransport \<lparr>hostName = nativeHost s, port = None\<rparr>)
      else None)"

definition connectTransport :: "platform \<Rightarrow> world \<Rightarrow> world" where
  "connectTransport P w =
     (let w1 = disconnectTransport w
      in case newTransport (settings w1) of None \<Rightarrow> w1
         | Some obj \<Rightarrow>
             transport_connect P (length (objs w1))
               (emit (CallConnect (length (objs w1)))
                  (w1\<lparr>objs := objs w1 @ [obj], transport := Some (length (objs w1))\<rparr>)))"

definition mergeSettings :: "config \<Rightarrow> update \<Rightarrow> config" where
  "mergeSettings s u =
     \<lparr> enabled = (case new_enabled u of None \<Rightarrow> enabled s | Some v \<Rightarrow> v),
       transportType = (case new_transportType u of None \<Rightarrow> transportType s | Some v \<Rightarrow> v),
       wsUrl = (case new_wsUrl u of None \<Rightarrow> wsUrl s | Some v \<Rightarrow> v),
       httpUrl = (case new_httpUrl u of None \<Rightarrow> httpUrl s | Some v \<Rightarrow> v),
       nativeHost = (case new_nativeHost u of None \<Rightarrow> nativeHost s | Some v \<Rightarrow> v) \<rparr>"

definition needsReconnect :: "config \<Rightarrow> update \<Rightarrow> bool" where
  "needsReconnect s u \<longleftrightarrow>
     Some (transportType s) \<noteq> new_transportType u \<or>
     Some (wsUrl s) \<noteq> new_wsUrl u \<or>
     Some (httpUrl s) \<noteq> new_httpUrl u \<or>
     Some (nativeHost s) \<noteq> new_nativeHost u \<or>
     Some (enabled s) \<noteq> new_enabled u"

definition saveSettings :: "world \<Rightarrow> world" where
  "saveSettings w = emit StorageSet w"

definition updateSettings :: "platform \<Rightarrow> update \<Rightarrow> world \<Rightarrow> world" where
  "updateSettings P u w =
     (let nr = needsReconnect (settings w) u;
          w1 = saveSettings (w\<lparr>settings := mergeSettings (settings w) u\<rparr>)
      in if nr
         then (let w2 = disconnectTransport w1
               in if enabled (settings w2) then connectTransport P w2 else w2)
         else w1)"

definition loadSettings :: "platform \<Rightarrow> update \<Rightarrow> world \<Rightarrow> world" where
  "loadSettings P stored w =
     (let w1 = w\<lparr>settings := mergeSettings (settings w) stored\<rparr>
      in if enabled (settings w1) then connectTransport P w1 else w1)"

definition handleSubtitle :: "message \<Rightarrow> world \<Rightarrow> world" where
  "handleSubtitle m w =
     (if \<not> enabled (settings w) then w
      else case transport w of None \<Rightarrow> w
           | Some r \<Rightarrow> transport_send r m (emit (CallSend r m) w))"

text \<open>\<^verbatim>\<open>testConnection\<close> up to its wait of one second; the answer it sends back after
  the wait reads \<^verbatim>\<open>connectionStatus\<close> and changes nothing.\<close>

definition testConnection :: "platform \<Rightarrow> world \<Rightarrow> world" where
  "testConnection P w =
     (let w1 = (case transport w of None \<Rightarrow> w
                | Some r \<Rightarrow> modWS r (\<lambda>t. t\<lparr>reconnectAttempts := 0\<rparr>) w);
          w2 = (case transport w1 of None \<Rightarrow> connectTransport P w1
                | Some r \<Rightarrow> connectTransport P (disconnectTransport w1))
      in setTimeout ResolveCb 1000 w2)"

section \<open>Events\<close>

datatype event =
    UpdateSettings update
  | LoadSettings update
  | SubtitleEv string
  | GetStatus
  | TestConnection
  | SockOpened nat
  | SockErrored nat
  | SockClosed nat
  | TimerFired nat
  | FetchOk nat
  | FetchNotOk nat
  | FetchThrew nat
  | PortDisconnected nat
  | PortMessage nat

definition runCallback :: "platform \<Rightarrow> callback \<Rightarrow> world \<Rightarrow> world" where
  "runCallback P c w = (case c of
       ReconnectCb r \<Rightarrow> reconnectFired P r w
     | HeartbeatCb r \<Rightarrow> heartbeatFired r w
     | RetryCb r a m \<Rightarrow> http_loop r a m w
     | ResolveCb \<Rightarrow> w)"

text \<open>A timeout is gone once it fires; an interval (the heartbeat) stays.\<close>

definition fireTimer :: "platform \<Rightarrow> nat \<Rightarrow> world \<Rightarrow> world" where
  "fireTimer P i w = (case filter (\<lambda>t. tid t = i) (timers w) of [] \<Rightarrow> w
     | t # _ \<Rightarrow> (case cb t of
           HeartbeatCb r \<Rightarrow> runCallback P (cb t) w
         | _ \<Rightarrow> runCallback P (cb t) (dropTimer i w)))"

definition settleFetch :: "(fetch \<Rightarrow> world \<Rightarrow> world) \<Rightarrow> nat \<Rightarrow> world \<Rightarrow> world" where
  "settleFetch k i w = (case filter (\<lambda>f. fid f = i) (fetches w) of [] \<Rightarrow> w
     | f # _ \<Rightarrow> k f (w\<lparr>fetches := filter (\<lambda>f. fid f \<noteq> i) (fetches w)\<rparr>))"

definition sockEvent :: "nat \<Rightarrow> readyState list \<Rightarrow> (world \<Rightarrow> world) \<Rightarrow> (nat \<Rightarrow> world \<Rightarrow> world)
    \<Rightarrow> world \<Rightarrow> world" where
  "sockEvent s from upd handler w = (case sockState s w of None \<Rightarrow> w
     | Some st \<Rightarrow> if st \<in> set from
         then (case sockOwner s w of None \<Rightarrow> w | Some r \<Rightarrow> handler r (upd w))
         else w)"

definition step :: "platform \<Rightarrow> event \<Rightarrow> world \<Rightarrow> world" where
  "step P e w = (case e of
       UpdateSettings u \<Rightarrow> updateSettings P u w
     | LoadSettings u \<Rightarrow> loadSettings P u w
     | SubtitleEv x \<Rightarrow> handleSubtitle (Subtitle x) w
     | GetStatus \<Rightarrow> w
     | TestConnection \<Rightarrow> testConnection P w
     | SockOpened s \<Rightarrow> sockEvent s [CONNECTING] (setSockState s OPEN) ws_onopen w
     | SockErrored s \<Rightarrow> sockEvent s [CONNECTING, OPEN, CLOSING] id ws_onerror w
     | SockClosed s \<Rightarrow> sockEvent s [CONNECTING, OPEN, CLOSING] (setSockState s CLOSED) ws_onclose w
     | TimerFired i \<Rightarrow> fireTimer P i w
     | FetchOk i \<Rightarrow> settleFetch http_ok i w
     | FetchNotOk i \<Rightarrow> settleFetch http_notok i w
     | FetchThrew i \<Rightarrow> settleFetch http_threw i w
     | PortDisconnected p \<Rightarrow>
         (if portConnected p w
          then native_onDisconnect (fst (ports w ! p))
                 (w\<lparr>ports := (ports w)[p := (fst (ports w ! p), False)]\<rparr>)
          else w)
     | PortMessage p \<Rightarrow> w)"

definition run :: "platform \<Rightarrow> event list \<Rightarrow> world \<Rightarrow> world" where
  "run P es w = foldl (\<lambda>w e. step P e w) w es"


section \<open>A concrete platform for the runs\<close>

definition startsWith :: "string \<Rightarrow> string \<Rightarrow> bool" where
  "startsWith p s \<longleftrightarrow> take (length p) s = p"

definition schemeChar :: "char \<Rightarrow> bool" where
  "schemeChar c \<longleftrightarrow> c \<in> set (''abcdefghijklmnopqrstuvwxyz'' @
     ''ABCDEFGHIJKLMNOPQRSTUVWXYZ'' @ ''0123456789+-.'')"

definition blank :: "char \<Rightarrow> bool" where
  "blank c \<longleftrightarrow> (of_char c :: nat) \<le> 32"

definition trim :: "string \<Rightarrow> string" where
  "trim s = rev (dropWhile blank (rev (dropWhile blank s)))"

definition lower :: "char \<Rightarrow> char" where
  "lower c = (case map_of (zip ''ABCDEFGHIJKLMNOPQRSTUVWXYZ'' ''abcdefghijklmnopqrstuvwxyz'') c of
       None \<Rightarrow> c | Some d \<Rightarrow> d)"

definition schemeOf :: "string \<Rightarrow> string option" where
  "schemeOf s =
     (let sch = takeWhile (\<lambda>c. c \<noteq> CHR '':'') s
      in if sch \<noteq> [] \<and> length sch < length s \<and> list_all schemeChar sch \<and>
            hd sch \<notin> set ''0123456789+-.''
         then Some (map lower sch) else None)"

definition afterScheme :: "string \<Rightarrow> string" where
  "afterScheme s =
     dropWhile (\<lambda>c. c = CHR ''/'' \<or> c = CHR 0x5C)
       (drop (Suc (length (takeWhile (\<lambda>c. c \<noteq> CHR '':'') s))) s)"

definition parsesAsUrl :: "string \<Rightarrow> bool" where
  "parsesAsUrl s = (case schemeOf (trim s) of None \<Rightarrow> False
     | Some sch \<Rightarrow>
         sch \<in> set [''http'', ''https'', ''ws'', ''wss'', ''ftp''] \<longrightarrow>
           afterScheme (trim s) \<noteq> [] \<and> hd (afterScheme (trim s)) \<notin> set ''?#:'')"

definition webSocketUrl :: "string \<Rightarrow> bool" where
  "webSocketUrl s \<longleftrightarrow> parsesAsUrl s \<and> CHR ''#'' \<notin> set s \<and>
     (schemeOf (trim s) = Some ''ws'' \<or> schemeOf (trim s) = Some ''wss'')"

text \<open>The platform of the concrete runs below; the general theorems hold for every
  platform. It stands for a browser on the addresses the runs use, which consist of a
  scheme, a host name, and possibly a port and a path. The \<^verbatim>\<open>URL\<close> constructor, called
  without a base, strips blanks at both ends and takes an input that starts with a scheme
  and a colon, whatever the scheme; for the schemes with a host it wants a host after the
  slashes. The \<^verbatim>\<open>WebSocket\<close> constructor takes what the \<^verbatim>\<open>URL\<close> constructor takes if the
  scheme is \<^verbatim>\<open>ws\<close> or \<^verbatim>\<open>wss\<close> and there is no fragment. Neither predicate looks into
  the host, the port or the path. \<^verbatim>\<open>connectNative\<close> returns a port.\<close>

definition browser :: platform where
  "browser = \<lparr> wsUrlOk = webSocketUrl, urlOk = parsesAsUrl, connectNativeOk = (\<lambda>h. True) \<rparr>"

definition noUpdate :: update where
  "noUpdate = \<lparr> new_enabled = None, new_transportType = None, new_wsUrl = None,
     new_httpUrl = None, new_nativeHost = None \<rparr>"

definition fullUpdate :: "config \<Rightarrow> update" where
  "fullUpdate s = \<lparr> new_enabled = Some (enabled s), new_transportType = Some (transportType s),
     new_wsUrl = Some (wsUrl s), new_httpUrl = Some (httpUrl s),
     new_nativeHost = Some (nativeHost s) \<rparr>"

section \<open>Well-formed timers\<close>

text \<open>A pending reconnect or heartbeat timer is the one its transport holds in the
  field \<^verbatim>\<open>reconnectTimeout\<close> or \<^verbatim>\<open>heartbeatInterval\<close>; the continuation of a retry
  loop and a request in flight belong to a request transport; timer ids are handed out
  once.\<close>

definition timer_ok :: "world \<Rightarrow> timer \<Rightarrow> bool" where
  "timer_ok w x = (case cb x of
       ReconnectCb r \<Rightarrow> (case getWS r w of None \<Rightarrow> False
          | Some t \<Rightarrow> reconnectTimeout t = Some (tid x))
     | HeartbeatCb r \<Rightarrow> (case getWS r w of None \<Rightarrow> False
          | Some t \<Rightarrow> heartbeatInterval t = Some (tid x))
     | RetryCb r a m \<Rightarrow> getHTTP r w \<noteq> None
     | ResolveCb \<Rightarrow> True)"

definition winv :: "world \<Rightarrow> bool" where
  "winv w \<longleftrightarrow> list_all (timer_ok w) (timers w) \<and>
     list_all (\<lambda>x. tid x < nextTimer w) (timers w) \<and>
     distinct (map tid (timers w)) \<and>
     list_all (\<lambda>f. getHTTP (f_owner f) w \<noteq> None) (fetches w)"

section \<open>An endpoint that refuses every connection\<close>



definition connectings :: "world \<Rightarrow> nat" where
  "connectings w = count_list (trace w) (Badge Connecting)"


section \<open>Runs of one socket transport\<close>




text \<open>The number of times Connecting was published since Connected was last published:
  the connect cycles in a row without a successful open.\<close>

definition sinceOpen :: "effect list \<Rightarrow> nat" where
  "sinceOpen es =
     foldl (\<lambda>n e. if e = Badge Connected then 0 else if e = Badge Connecting then Suc n else n)
       0 es"

definition opened :: "world \<Rightarrow> bool" where
  "opened w \<longleftrightarrow> Badge Connected \<in> set (trace w)"

definition theWS :: "world \<Rightarrow> ws_transport option" where
  "theWS w = (case objs w of [WebSocketTransport t] \<Rightarrow> Some t | _ \<Rightarrow> None)"




section \<open>Observations on the trace and notions of the specification\<close>

definition sendCalls :: "world \<Rightarrow> nat" where
  "sendCalls w =
     length (filter (\<lambda>e. case e of CallSend r m \<Rightarrow> True | _ \<Rightarrow> False) (trace w))"

definition connectCalls :: "world \<Rightarrow> nat" where
  "connectCalls w =
     length (filter (\<lambda>e. case e of CallConnect r \<Rightarrow> True | _ \<Rightarrow> False) (trace w))"

text \<open>The effective configuration in the words of the specification: the kind, the
  endpoint of the selected kind, and the enabled flag.\<close>

definition endpoint :: "config \<Rightarrow> string" where
  "endpoint s =
     (if transportType s = ''websocket'' then wsUrl s
      else if transportType s = ''http'' then httpUrl s
      else if transportType s = ''native'' then nativeHost s
      else [])"

definition effective :: "config \<Rightarrow> string \<times> string \<times> bool" where
  "effective s = (transportType s, endpoint s, enabled s)"

text \<open>An HTTP(S) address in the words of the specification.\<close>

definition isHttpUri :: "string \<Rightarrow> bool" where
  "isHttpUri s \<longleftrightarrow> startsWith ''http://'' s \<or> startsWith ''https://'' s"

definition complete :: "update \<Rightarrow> bool" where
  "complete u \<longleftrightarrow> new_enabled u \<noteq> None \<and> new_transportType u \<noteq> None \<and>
     new_wsUrl u \<noteq> None \<and> new_httpUrl u \<noteq> None \<and> new_nativeHost u \<noteq> None"

text \<open>The runs of the examples below.\<close>

definition httpOnly :: update where
  "httpOnly = noUpdate\<lparr>new_transportType := Some ''http''\<rparr>"

definition disable :: update where
  "disable = noUpdate\<lparr>new_enabled := Some False\<rparr>"

definition httpDown :: world where
  "httpDown = run browser [LoadSettings httpOnly, FetchThrew 0, TimerFired 1, FetchThrew 1,
     TimerFired 2, FetchThrew 2] init"

definition httpUp :: world where
  "httpUp = run browser [LoadSettings httpOnly, FetchOk 0] init"

definition wsOpen :: world where
  "wsOpen = run browser [LoadSettings noUpdate, SockOpened 0] init"

definition wsStarted :: world where
  "wsStarted = run browser [LoadSettings noUpdate] init"

definition httpErrors :: world where
  "httpErrors = run browser [LoadSettings httpOnly, FetchOk 0, SubtitleEv ''x'', FetchNotOk 1,
     FetchNotOk 2, FetchNotOk 3] init"

definition ftpFeed :: update where
  "ftpFeed = noUpdate\<lparr>new_transportType := Some ''http'',
     new_httpUrl := Some ''ftp://example.com/feed''\<rparr>"

definition noScheme :: update where
  "noScheme = noUpdate\<lparr>new_transportType := Some ''http'', new_httpUrl := Some ''localhost''\<rparr>"

definition nativeOnly :: update where
  "nativeOnly = noUpdate\<lparr>new_transportType := Some ''native''\<rparr>"


definition otherHttpUrl :: update where
  "otherHttpUrl = fullUpdate (defaultSettings\<lparr>httpUrl := ''http://localhost:9090/other''\<rparr>)"





text \<open>The calls of the manager into its transports, in their order: what a spy in the
  place of the transport records.\<close>

definition calls :: "world \<Rightarrow> effect list" where
  "calls w = filter (\<lambda>e. case e of CallConnect r \<Rightarrow> True | CallDisconnect r \<Rightarrow> True
     | CallSend r m \<Rightarrow> True | _ \<Rightarrow> False) (trace w)"

definition revived :: world where
  "revived = run browser [LoadSettings noUpdate, SockOpened 0, UpdateSettings disable,
     SockClosed 0, TimerFired 2, SockOpened 1] init"

definition wsOff :: world where
  "wsOff = run browser [LoadSettings noUpdate, SockOpened 0, UpdateSettings disable] init"

definition otherWsUrl :: update where
  "otherWsUrl = noUpdate\<lparr>new_wsUrl := Some ''ws://localhost:9000''\<rparr>"

definition doubled :: world where
  "doubled = run browser [LoadSettings noUpdate, SockOpened 0, UpdateSettings otherWsUrl,
     SockClosed 0, SockOpened 1, TimerFired 2, SockOpened 2] init"

section \<open>The reconnection policy\<close>

lemma reconnectDelay_mono: "m \<le> n \<Longrightarrow> reconnectDelay m \<le> reconnectDelay n"
  unfolding reconnectDelay_def
  by (rule min.mono) (simp_all add: power_increasing)

lemma reconnectDelay_large: "5 \<le> n \<Longrightarrow> reconnectDelay n = 30000"
proof -
  assume "5 \<le> n"
  then have "(2::nat) ^ 5 \<le> 2 ^ n" by (intro power_increasing) simp_all
  then have "(30000::nat) \<le> 1000 * 2 ^ n" by simp
  then show ?thesis by (simp add: reconnectDelay_def maxReconnectDelay_def)
qed

text \<open>C5. The delay that \<^verbatim>\<open>scheduleReconnect\<close> computes from the attempt counter is
  \<open>min (1000 * 2 ^ attempt) 30000\<close>: it does not decrease when the counter grows, never
  exceeds 30000, is 1000, 2000 and 4000 for the counters 0, 1 and 2, and is 30000 from
  the counter 5 on.\<close>

theorem C5_reconnectDelay:
  "reconnectDelay a = min (1000 * 2 ^ a) 30000 \<and>
   (\<forall>m n. m \<le> n \<longrightarrow> reconnectDelay m \<le> reconnectDelay n) \<and>
   reconnectDelay a \<le> 30000 \<and>
   reconnectDelay 0 = 1000 \<and> reconnectDelay 1 = 2000 \<and> reconnectDelay 2 = 4000 \<and>
   (\<forall>n\<ge>5. reconnectDelay n = 30000)"
  using reconnectDelay_mono reconnectDelay_large
  by (simp add: reconnectDelay_def maxReconnectDelay_def)

theorem C5_reconnectDelay_witness:
  "(3::nat) \<le> 4 \<and> reconnectDelay 3 \<le> reconnectDelay 4 \<and> (5::nat) \<le> 7 \<and>
   reconnectDelay 7 = 30000 \<and> reconnectDelay 3 = 8000 \<and> reconnectDelay 4 = 16000"
  using C5_reconnectDelay [of 3]
  by (simp add: reconnectDelay_def maxReconnectDelay_def)

section \<open>What the primitives change\<close>

lemma emit_fields [simp]:
  "settings (emit e w) = settings w" "transport (emit e w) = transport w"
  "connectionStatus (emit e w) = connectionStatus w" "objs (emit e w) = objs w"
  "socks (emit e w) = socks w" "ports (emit e w) = ports w" "timers (emit e w) = timers w"
  "nextTimer (emit e w) = nextTimer w" "fetches (emit e w) = fetches w"
  "nextFetch (emit e w) = nextFetch w" "trace (emit e w) = trace w @ [e]"
  by (simp_all add: emit_def)

lemma updateBadge_fields [simp]:
  "settings (updateBadge st w) = settings w" "transport (updateBadge st w) = transport w"
  "connectionStatus (updateBadge st w) = st" "objs (updateBadge st w) = objs w"
  "socks (updateBadge st w) = socks w" "ports (updateBadge st w) = ports w"
  "timers (updateBadge st w) = timers w" "nextTimer (updateBadge st w) = nextTimer w"
  "fetches (updateBadge st w) = fetches w" "nextFetch (updateBadge st w) = nextFetch w"
  "trace (updateBadge st w) = trace w @ [Badge st]"
  by (simp_all add: updateBadge_def)

lemma addTimer_fields [simp]:
  "settings (addTimer c d w) = settings w" "transport (addTimer c d w) = transport w"
  "connectionStatus (addTimer c d w) = connectionStatus w" "objs (addTimer c d w) = objs w"
  "socks (addTimer c d w) = socks w" "ports (addTimer c d w) = ports w"
  "timers (addTimer c d w) = timers w @ [\<lparr>tid = nextTimer w, cb = c, delay = d\<rparr>]"
  "nextTimer (addTimer c d w) = Suc (nextTimer w)" "fetches (addTimer c d w) = fetches w"
  "nextFetch (addTimer c d w) = nextFetch w" "trace (addTimer c d w) = trace w"
  by (simp_all add: addTimer_def)

lemma dropTimer_fields [simp]:
  "settings (dropTimer i w) = settings w" "transport (dropTimer i w) = transport w"
  "connectionStatus (dropTimer i w) = connectionStatus w" "objs (dropTimer i w) = objs w"
  "socks (dropTimer i w) = socks w" "ports (dropTimer i w) = ports w"
  "timers (dropTimer i w) = filter (\<lambda>t. tid t \<noteq> i) (timers w)"
  "nextTimer (dropTimer i w) = nextTimer w" "fetches (dropTimer i w) = fetches w"
  "nextFetch (dropTimer i w) = nextFetch w" "trace (dropTimer i w) = trace w"
  by (simp_all add: dropTimer_def)

lemma modWS_fields [simp]:
  "settings (modWS r f w) = settings w" "transport (modWS r f w) = transport w"
  "connectionStatus (modWS r f w) = connectionStatus w"
  "length (objs (modWS r f w)) = length (objs w)"
  "socks (modWS r f w) = socks w" "ports (modWS r f w) = ports w"
  "timers (modWS r f w) = timers w" "nextTimer (modWS r f w) = nextTimer w"
  "fetches (modWS r f w) = fetches w" "nextFetch (modWS r f w) = nextFetch w"
  "trace (modWS r f w) = trace w"
  by (simp_all add: modWS_def split: option.splits)

lemma modNative_fields [simp]:
  "settings (modNative r f w) = settings w" "transport (modNative r f w) = transport w"
  "connectionStatus (modNative r f w) = connectionStatus w"
  "length (objs (modNative r f w)) = length (objs w)"
  "socks (modNative r f w) = socks w" "ports (modNative r f w) = ports w"
  "timers (modNative r f w) = timers w" "nextTimer (modNative r f w) = nextTimer w"
  "fetches (modNative r f w) = fetches w" "nextFetch (modNative r f w) = nextFetch w"
  "trace (modNative r f w) = trace w"
  by (simp_all add: modNative_def split: option.splits)

lemma setSockState_fields [simp]:
  "settings (setSockState s st w) = settings w" "transport (setSockState s st w) = transport w"
  "connectionStatus (setSockState s st w) = connectionStatus w"
  "objs (setSockState s st w) = objs w"
  "length (socks (setSockState s st w)) = length (socks w)" "ports (setSockState s st w) = ports w"
  "timers (setSockState s st w) = timers w" "nextTimer (setSockState s st w) = nextTimer w"
  "fetches (setSockState s st w) = fetches w" "nextFetch (setSockState s st w) = nextFetch w"
  "trace (setSockState s st w) = trace w"
  by (simp_all add: setSockState_def)

text \<open>Reading the store.\<close>

lemma getObj_cong: "objs w' = objs w \<Longrightarrow> getObj r w' = getObj r w"
  by (simp add: getObj_def)

lemma getWS_cong: "objs w' = objs w \<Longrightarrow> getWS r w' = getWS r w"
  by (simp add: getWS_def getObj_def)

lemma getHTTP_cong: "objs w' = objs w \<Longrightarrow> getHTTP r w' = getHTTP r w"
  by (simp add: getHTTP_def getObj_def)

lemma getNative_cong: "objs w' = objs w \<Longrightarrow> getNative r w' = getNative r w"
  by (simp add: getNative_def getObj_def)

lemma get_emit [simp]:
  "getObj r (emit e w) = getObj r w" "getWS r (emit e w) = getWS r w"
  "getHTTP r (emit e w) = getHTTP r w" "getNative r (emit e w) = getNative r w"
  by (simp_all add: getObj_def getWS_def getHTTP_def getNative_def)

lemma get_updateBadge [simp]:
  "getObj r (updateBadge st w) = getObj r w" "getWS r (updateBadge st w) = getWS r w"
  "getHTTP r (updateBadge st w) = getHTTP r w" "getNative r (updateBadge st w) = getNative r w"
  by (simp_all add: getObj_def getWS_def getHTTP_def getNative_def)

lemma get_addTimer [simp]:
  "getObj r (addTimer c d w) = getObj r w" "getWS r (addTimer c d w) = getWS r w"
  "getHTTP r (addTimer c d w) = getHTTP r w" "getNative r (addTimer c d w) = getNative r w"
  by (simp_all add: getObj_def getWS_def getHTTP_def getNative_def)

lemma get_dropTimer [simp]:
  "getObj r (dropTimer i w) = getObj r w" "getWS r (dropTimer i w) = getWS r w"
  "getHTTP r (dropTimer i w) = getHTTP r w" "getNative r (dropTimer i w) = getNative r w"
  by (simp_all add: getObj_def getWS_def getHTTP_def getNative_def)

lemma get_setSockState [simp]:
  "getObj r (setSockState s st w) = getObj r w" "getWS r (setSockState s st w) = getWS r w"
  "getHTTP r (setSockState s st w) = getHTTP r w"
  "getNative r (setSockState s st w) = getNative r w"
  by (simp_all add: getObj_def getWS_def getHTTP_def getNative_def)

lemma getWS_modWS [simp]:
  "getWS r' (modWS r f w) = (if r' = r then map_option f (getWS r w) else getWS r' w)"
  by (auto simp: modWS_def getWS_def getObj_def split: option.splits transport_obj.splits)

lemma getHTTP_modWS [simp]: "getHTTP r' (modWS r f w) = getHTTP r' w"
  by (auto simp: modWS_def getWS_def getHTTP_def getObj_def nth_list_update
      split: option.splits transport_obj.splits)

lemma getNative_modWS [simp]: "getNative r' (modWS r f w) = getNative r' w"
  by (auto simp: modWS_def getWS_def getNative_def getObj_def nth_list_update
      split: option.splits transport_obj.splits)

lemma getNative_modNative [simp]:
  "getNative r' (modNative r f w) = (if r' = r then map_option f (getNative r w) else getNative r' w)"
  by (auto simp: modNative_def getNative_def getObj_def split: option.splits transport_obj.splits)

lemma getHTTP_modNative [simp]: "getHTTP r' (modNative r f w) = getHTTP r' w"
  by (auto simp: modNative_def getNative_def getHTTP_def getObj_def nth_list_update
      split: option.splits transport_obj.splits)

lemma getWS_modNative [simp]: "getWS r' (modNative r f w) = getWS r' w"
  by (auto simp: modNative_def getNative_def getWS_def getObj_def nth_list_update
      split: option.splits transport_obj.splits)

lemma timer_ok_cong: "objs w' = objs w \<Longrightarrow> timer_ok w' = timer_ok w"
  by (rule ext) (simp add: timer_ok_def getWS_def getHTTP_def getObj_def split: callback.splits)

lemma winv_emit [simp]: "winv (emit e w) = winv w"
  by (simp add: winv_def timer_ok_cong [of "emit e w" w])

lemma winv_updateBadge [simp]: "winv (updateBadge st w) = winv w"
  by (simp add: winv_def timer_ok_cong [of "updateBadge st w" w])

lemma winv_setSockState [simp]: "winv (setSockState s st w) = winv w"
  by (simp add: winv_def timer_ok_cong [of "setSockState s st w" w])


section \<open>The timers stay well-formed\<close>

lemma winv_cong:
  "objs w' = objs w \<Longrightarrow> timers w' = timers w \<Longrightarrow> nextTimer w' = nextTimer w \<Longrightarrow>
   fetches w' = fetches w \<Longrightarrow> winv w' = winv w"
  by (simp add: winv_def timer_ok_cong [of w' w] getHTTP_cong [of w' w])






lemma winv_socks_upd [simp]: "winv (w\<lparr>socks := x\<rparr>) = winv w"
  by (rule winv_cong) simp_all

lemma winv_ports_upd [simp]: "winv (w\<lparr>ports := x\<rparr>) = winv w"
  by (rule winv_cong) simp_all

lemma winv_settings_upd [simp]: "winv (w\<lparr>settings := x\<rparr>) = winv w"
  by (rule winv_cong) simp_all

lemma winv_transport_upd [simp]: "winv (w\<lparr>transport := x\<rparr>) = winv w"
  by (rule winv_cong) simp_all















lemma getObj_upd [simp]:
  "getObj r (w\<lparr>settings := a_settings\<rparr>) = getObj r w"
  "getObj r (w\<lparr>transport := a_transport\<rparr>) = getObj r w"
  "getObj r (w\<lparr>connectionStatus := a_connectionStatus\<rparr>) = getObj r w"
  "getObj r (w\<lparr>socks := a_socks\<rparr>) = getObj r w"
  "getObj r (w\<lparr>ports := a_ports\<rparr>) = getObj r w"
  "getObj r (w\<lparr>timers := a_timers\<rparr>) = getObj r w"
  "getObj r (w\<lparr>nextTimer := a_nextTimer\<rparr>) = getObj r w"
  "getObj r (w\<lparr>fetches := a_fetches\<rparr>) = getObj r w"
  "getObj r (w\<lparr>nextFetch := a_nextFetch\<rparr>) = getObj r w"
  "getObj r (w\<lparr>trace := a_trace\<rparr>) = getObj r w"
  by (simp_all add: getObj_def)

lemma getWS_upd [simp]:
  "getWS r (w\<lparr>settings := a_settings\<rparr>) = getWS r w"
  "getWS r (w\<lparr>transport := a_transport\<rparr>) = getWS r w"
  "getWS r (w\<lparr>connectionStatus := a_connectionStatus\<rparr>) = getWS r w"
  "getWS r (w\<lparr>socks := a_socks\<rparr>) = getWS r w"
  "getWS r (w\<lparr>ports := a_ports\<rparr>) = getWS r w"
  "getWS r (w\<lparr>timers := a_timers\<rparr>) = getWS r w"
  "getWS r (w\<lparr>nextTimer := a_nextTimer\<rparr>) = getWS r w"
  "getWS r (w\<lparr>fetches := a_fetches\<rparr>) = getWS r w"
  "getWS r (w\<lparr>nextFetch := a_nextFetch\<rparr>) = getWS r w"
  "getWS r (w\<lparr>trace := a_trace\<rparr>) = getWS r w"
  by (simp_all add: getWS_def)

lemma getHTTP_upd [simp]:
  "getHTTP r (w\<lparr>settings := a_settings\<rparr>) = getHTTP r w"
  "getHTTP r (w\<lparr>transport := a_transport\<rparr>) = getHTTP r w"
  "getHTTP r (w\<lparr>connectionStatus := a_connectionStatus\<rparr>) = getHTTP r w"
  "getHTTP r (w\<lparr>socks := a_socks\<rparr>) = getHTTP r w"
  "getHTTP r (w\<lparr>ports := a_ports\<rparr>) = getHTTP r w"
  "getHTTP r (w\<lparr>timers := a_timers\<rparr>) = getHTTP r w"
  "getHTTP r (w\<lparr>nextTimer := a_nextTimer\<rparr>) = getHTTP r w"
  "getHTTP r (w\<lparr>fetches := a_fetches\<rparr>) = getHTTP r w"
  "getHTTP r (w\<lparr>nextFetch := a_nextFetch\<rparr>) = getHTTP r w"
  "getHTTP r (w\<lparr>trace := a_trace\<rparr>) = getHTTP r w"
  by (simp_all add: getHTTP_def)

lemma getNative_upd [simp]:
  "getNative r (w\<lparr>settings := a_settings\<rparr>) = getNative r w"
  "getNative r (w\<lparr>transport := a_transport\<rparr>) = getNative r w"
  "getNative r (w\<lparr>connectionStatus := a_connectionStatus\<rparr>) = getNative r w"
  "getNative r (w\<lparr>socks := a_socks\<rparr>) = getNative r w"
  "getNative r (w\<lparr>ports := a_ports\<rparr>) = getNative r w"
  "getNative r (w\<lparr>timers := a_timers\<rparr>) = getNative r w"
  "getNative r (w\<lparr>nextTimer := a_nextTimer\<rparr>) = getNative r w"
  "getNative r (w\<lparr>fetches := a_fetches\<rparr>) = getNative r w"
  "getNative r (w\<lparr>nextFetch := a_nextFetch\<rparr>) = getNative r w"
  "getNative r (w\<lparr>trace := a_trace\<rparr>) = getNative r w"
  by (simp_all add: getNative_def)

lemma timer_ok_upd [simp]:
  "timer_ok (w\<lparr>settings := a_settings\<rparr>) = timer_ok w"
  "timer_ok (w\<lparr>transport := a_transport\<rparr>) = timer_ok w"
  "timer_ok (w\<lparr>connectionStatus := a_connectionStatus\<rparr>) = timer_ok w"
  "timer_ok (w\<lparr>socks := a_socks\<rparr>) = timer_ok w"
  "timer_ok (w\<lparr>ports := a_ports\<rparr>) = timer_ok w"
  "timer_ok (w\<lparr>timers := a_timers\<rparr>) = timer_ok w"
  "timer_ok (w\<lparr>nextTimer := a_nextTimer\<rparr>) = timer_ok w"
  "timer_ok (w\<lparr>fetches := a_fetches\<rparr>) = timer_ok w"
  "timer_ok (w\<lparr>nextFetch := a_nextFetch\<rparr>) = timer_ok w"
  "timer_ok (w\<lparr>trace := a_trace\<rparr>) = timer_ok w"
  by (rule timer_ok_cong, simp)+

lemma timer_ok_prims [simp]:
  "timer_ok (emit e w) = timer_ok w" "timer_ok (updateBadge st w) = timer_ok w"
  "timer_ok (addTimer c d w) = timer_ok w" "timer_ok (dropTimer i w) = timer_ok w"
  "timer_ok (setSockState s rs w) = timer_ok w"
  by (rule timer_ok_cong, simp)+






























lemma heartbeat_timers_same_tid:
  assumes "winv w" "x \<in> set (timers w)" "t \<in> set (timers w)"
    "cb x = HeartbeatCb r" "cb t = HeartbeatCb r"
  shows "tid x = tid t"
proof -
  from assms have "timer_ok w x" "timer_ok w t" by (simp_all add: winv_def list_all_iff)
  with assms(4,5) show ?thesis by (auto simp: timer_ok_def split: option.splits)
qed








section \<open>Evaluating concrete runs\<close>

lemmas prim_defs = emit_def updateBadge_def getObj_def getWS_def getHTTP_def getNative_def
  modWS_def modNative_def sockState_def sockOwner_def setSockState_def portConnected_def
  addTimer_def dropTimer_def setTimeout_def setInterval_def clearTimeout_def clearInterval_def

lemmas ws_defs = ws_send_def stopHeartbeat_def startHeartbeat_def reconnectDelay_def
  scheduleReconnect_def ws_connect_def ws_onopen_def ws_onclose_def ws_onerror_def
  reconnectFired_def heartbeatFired_def sockClose_def ws_disconnect_def
  maxReconnectAttempts_def maxReconnectDelay_def

lemmas http_defs = http_attempt_def http_loop_def http_send_def http_ok_def http_notok_def
  http_threw_def http_connect_def http_disconnect_def maxRetries_def

lemmas native_defs = native_send_def native_connect_def native_onDisconnect_def
  portDisconnect_def native_disconnect_def

lemmas manager_defs = transport_connect_def transport_disconnect_def transport_send_def
  disconnectTransport_def newTransport_def connectTransport_def mergeSettings_def
  needsReconnect_def saveSettings_def updateSettings_def loadSettings_def handleSubtitle_def
  testConnection_def

lemmas event_defs = runCallback_def fireTimer_def settleFetch_def sockEvent_def step_def

lemmas platform_defs = browser_def webSocketUrl_def parsesAsUrl_def schemeOf_def afterScheme_def
  trim_def blank_def lower_def schemeChar_def noUpdate_def fullUpdate_def defaultSettings_def
  init_def

lemmas model_defs = prim_defs ws_defs http_defs native_defs manager_defs event_defs
  platform_defs Let_def




section \<open>The reconnect cap of the socket transport\<close>

lemma refused_1:
  "run browser [LoadSettings noUpdate] init =
     \<lparr>settings = \<lparr>enabled = True, transportType = ''websocket'', wsUrl =
     ''ws://localhost:8767'', httpUrl = ''http://localhost:8080/subtitle'', nativeHost =
     ''com.subtitle.streamer''\<rparr>, transport = Some 0, connectionStatus = Connecting,
     objs = [WebSocketTransport \<lparr>ws_url = ''ws://localhost:8767'', ws = Some 0,
     reconnectAttempts = 0, heartbeatInterval = None, reconnectTimeout = None\<rparr>],
     socks = [(0, CONNECTING)], ports = [], timers = [], nextTimer = 1, fetches = [],
     nextFetch = 0, trace = [Badge Disconnected, CallConnect 0, Badge Connecting,
     NewWebSocket 0]\<rparr>"
proof -
  have e: "run browser [LoadSettings noUpdate] init =
      step browser (LoadSettings noUpdate) init"
    by (simp add: run_def)
  show ?thesis unfolding e
    by (simp add: prim_defs ws_defs manager_defs event_defs platform_defs Let_def)
qed





















lemma theWS_cong: "objs w' = objs w \<Longrightarrow> theWS w' = theWS w"
  by (simp add: theWS_def)

lemma theWS_prims [simp]:
  "theWS (emit e w) = theWS w" "theWS (updateBadge st w) = theWS w"
  "theWS (addTimer c d w) = theWS w" "theWS (dropTimer i w) = theWS w"
  "theWS (setSockState s rs w) = theWS w"
  by (rule theWS_cong, simp)+

lemma sinceOpen_snoc:
  "sinceOpen (es @ [e]) =
     (if e = Badge Connected then 0 else if e = Badge Connecting then Suc (sinceOpen es)
      else sinceOpen es)"
  by (simp add: sinceOpen_def)


lemma opened_prims [simp]:
  "opened (emit e w) \<longleftrightarrow> e = Badge Connected \<or> opened w"
  "opened (updateBadge st w) \<longleftrightarrow> st = Connected \<or> opened w"
  "opened (addTimer c d w) = opened w" "opened (dropTimer i w) = opened w"
  "opened (setSockState s rs w) = opened w" "opened (modWS r f w) = opened w"
  by (auto simp: opened_def)

lemma theWS_upd [simp]:
  "theWS (w\<lparr>settings := a_settings\<rparr>) = theWS w"
  "theWS (w\<lparr>transport := a_transport\<rparr>) = theWS w"
  "theWS (w\<lparr>connectionStatus := a_connectionStatus\<rparr>) = theWS w"
  "theWS (w\<lparr>socks := a_socks\<rparr>) = theWS w"
  "theWS (w\<lparr>ports := a_ports\<rparr>) = theWS w"
  "theWS (w\<lparr>timers := a_timers\<rparr>) = theWS w"
  "theWS (w\<lparr>nextTimer := a_nextTimer\<rparr>) = theWS w"
  "theWS (w\<lparr>fetches := a_fetches\<rparr>) = theWS w"
  "theWS (w\<lparr>nextFetch := a_nextFetch\<rparr>) = theWS w"
  "theWS (w\<lparr>trace := a_trace\<rparr>) = theWS w"
  by (simp_all add: theWS_def)

lemma opened_upd [simp]:
  "opened (w\<lparr>settings := a_settings\<rparr>) = opened w"
  "opened (w\<lparr>transport := a_transport\<rparr>) = opened w"
  "opened (w\<lparr>connectionStatus := a_connectionStatus\<rparr>) = opened w"
  "opened (w\<lparr>socks := a_socks\<rparr>) = opened w"
  "opened (w\<lparr>ports := a_ports\<rparr>) = opened w"
  "opened (w\<lparr>timers := a_timers\<rparr>) = opened w"
  "opened (w\<lparr>nextTimer := a_nextTimer\<rparr>) = opened w"
  "opened (w\<lparr>fetches := a_fetches\<rparr>) = opened w"
  "opened (w\<lparr>nextFetch := a_nextFetch\<rparr>) = opened w"
  by (simp_all add: opened_def)

























lemma connectings_prims [simp]:
  "connectings (emit e w) = connectings w + (if e = Badge Connecting then 1 else 0)"
  "connectings (updateBadge st w) = connectings w + (if st = Connecting then 1 else 0)"
  by (simp_all add: connectings_def emit_def updateBadge_def)
















lemmas scenario_defs = httpOnly_def disable_def ftpFeed_def noScheme_def nativeOnly_def
  otherHttpUrl_def otherWsUrl_def

section \<open>Submitting an event\<close>

lemma httpDown_1:
  "run browser [LoadSettings httpOnly] init =
     \<lparr>settings = \<lparr>enabled = True, transportType = ''http'', wsUrl =
     ''ws://localhost:8767'', httpUrl = ''http://localhost:8080/subtitle'', nativeHost =
     ''com.subtitle.streamer''\<rparr>, transport = Some 0, connectionStatus = Connected,
     objs = [HttpTransport \<lparr>http_url = ''http://localhost:8080/subtitle''\<rparr>],
     socks = [], ports = [], timers = [], nextTimer = 1, fetches = [\<lparr>fid = 0,
     f_owner = 0, f_attempt = 0, f_msg = ConnectedMsg\<rparr>], nextFetch = 1, trace =
     [Badge Disconnected, CallConnect 0, Badge Connected, Fetch 0 ConnectedMsg]\<rparr>"
proof -
  have e: "run browser [LoadSettings httpOnly] init =
      step browser (LoadSettings httpOnly) init"
    by (simp add: run_def)
  show ?thesis unfolding e
    by (simp add: prim_defs ws_defs http_defs native_defs manager_defs event_defs platform_defs scenario_defs Let_def)
qed

lemma httpDown_2:
  "run browser [LoadSettings httpOnly, FetchThrew 0] init =
     \<lparr>settings = \<lparr>enabled = True, transportType = ''http'', wsUrl =
     ''ws://localhost:8767'', httpUrl = ''http://localhost:8080/subtitle'', nativeHost =
     ''com.subtitle.streamer''\<rparr>, transport = Some 0, connectionStatus = Connected,
     objs = [HttpTransport \<lparr>http_url = ''http://localhost:8080/subtitle''\<rparr>],
     socks = [], ports = [], timers = [\<lparr>tid = 1, cb = RetryCb 0 1 ConnectedMsg,
     delay = 1000\<rparr>], nextTimer = 2, fetches = [], nextFetch = 1, trace = [Badge
     Disconnected, CallConnect 0, Badge Connected, Fetch 0 ConnectedMsg, SetTimeout 1
     1000]\<rparr>"
proof -
  have e: "run browser [LoadSettings httpOnly, FetchThrew 0] init =
      step browser (FetchThrew 0)
       (run browser [LoadSettings httpOnly] init)"
    by (simp add: run_def)
  show ?thesis unfolding e httpDown_1
    by (simp add: prim_defs ws_defs http_defs native_defs manager_defs event_defs platform_defs scenario_defs Let_def)
qed

lemma httpDown_3:
  "run browser [LoadSettings httpOnly, FetchThrew 0, TimerFired 1] init =
     \<lparr>settings = \<lparr>enabled = True, transportType = ''http'', wsUrl =
     ''ws://localhost:8767'', httpUrl = ''http://localhost:8080/subtitle'', nativeHost =
     ''com.subtitle.streamer''\<rparr>, transport = Some 0, connectionStatus = Connected,
     objs = [HttpTransport \<lparr>http_url = ''http://localhost:8080/subtitle''\<rparr>],
     socks = [], ports = [], timers = [], nextTimer = 2, fetches = [\<lparr>fid = 1,
     f_owner = 0, f_attempt = 1, f_msg = ConnectedMsg\<rparr>], nextFetch = 2, trace =
     [Badge Disconnected, CallConnect 0, Badge Connected, Fetch 0 ConnectedMsg, SetTimeout
     1 1000, Fetch 1 ConnectedMsg]\<rparr>"
proof -
  have e: "run browser [LoadSettings httpOnly, FetchThrew 0, TimerFired 1] init =
      step browser (TimerFired 1)
       (run browser [LoadSettings httpOnly, FetchThrew 0] init)"
    by (simp add: run_def)
  show ?thesis unfolding e httpDown_2
    by (simp add: prim_defs ws_defs http_defs native_defs manager_defs event_defs platform_defs scenario_defs Let_def)
qed

lemma httpDown_4:
  "run browser [LoadSettings httpOnly, FetchThrew 0, TimerFired 1, FetchThrew 1] init =
     \<lparr>settings = \<lparr>enabled = True, transportType = ''http'', wsUrl =
     ''ws://localhost:8767'', httpUrl = ''http://localhost:8080/subtitle'', nativeHost =
     ''com.subtitle.streamer''\<rparr>, transport = Some 0, connectionStatus = Connected,
     objs = [HttpTransport \<lparr>http_url = ''http://localhost:8080/subtitle''\<rparr>],
     socks = [], ports = [], timers = [\<lparr>tid = 2, cb = RetryCb 0 2 ConnectedMsg,
     delay = 2000\<rparr>], nextTimer = 3, fetches = [], nextFetch = 2, trace = [Badge
     Disconnected, CallConnect 0, Badge Connected, Fetch 0 ConnectedMsg, SetTimeout 1 1000,
     Fetch 1 ConnectedMsg, SetTimeout 2 2000]\<rparr>"
proof -
  have e: "run browser [LoadSettings httpOnly, FetchThrew 0, TimerFired 1, FetchThrew 1] init =
      step browser (FetchThrew 1)
       (run browser [LoadSettings httpOnly, FetchThrew 0, TimerFired 1] init)"
    by (simp add: run_def)
  show ?thesis unfolding e httpDown_3
    by (simp add: prim_defs ws_defs http_defs native_defs manager_defs event_defs platform_defs scenario_defs Let_def)
qed

lemma httpDown_5:
  "run browser [LoadSettings httpOnly, FetchThrew 0, TimerFired 1, FetchThrew 1, TimerFired
   2] init =
     \<lparr>settings = \<lparr>enabled = True, transportType = ''http'', wsUrl =
     ''ws://localhost:8767'', httpUrl = ''http://localhost:8080/subtitle'', nativeHost =
     ''com.subtitle.streamer''\<rparr>, transport = Some 0, connectionStatus = Connected,
     objs = [HttpTransport \<lparr>http_url = ''http://localhost:8080/subtitle''\<rparr>],
     socks = [], ports = [], timers = [], nextTimer = 3, fetches = [\<lparr>fid = 2,
     f_owner = 0, f_attempt = 2, f_msg = ConnectedMsg\<rparr>], nextFetch = 3, trace =
     [Badge Disconnected, CallConnect 0, Badge Connected, Fetch 0 ConnectedMsg, SetTimeout
     1 1000, Fetch 1 ConnectedMsg, SetTimeout 2 2000, Fetch 2 ConnectedMsg]\<rparr>"
proof -
  have e: "run browser [LoadSettings httpOnly, FetchThrew 0, TimerFired 1, FetchThrew 1, TimerFired
   2] init =
      step browser (TimerFired 2)
       (run browser [LoadSettings httpOnly, FetchThrew 0, TimerFired 1, FetchThrew 1] init)"
    by (simp add: run_def)
  show ?thesis unfolding e httpDown_4
    by (simp add: prim_defs ws_defs http_defs native_defs manager_defs event_defs platform_defs scenario_defs Let_def)
qed

lemma httpDown_6:
  "run browser [LoadSettings httpOnly, FetchThrew 0, TimerFired 1, FetchThrew 1, TimerFired
   2, FetchThrew 2] init =
     \<lparr>settings = \<lparr>enabled = True, transportType = ''http'', wsUrl =
     ''ws://localhost:8767'', httpUrl = ''http://localhost:8080/subtitle'', nativeHost =
     ''com.subtitle.streamer''\<rparr>, transport = Some 0, connectionStatus =
     Disconnected, objs = [HttpTransport \<lparr>http_url =
     ''http://localhost:8080/subtitle''\<rparr>], socks = [], ports = [], timers = [],
     nextTimer = 3, fetches = [], nextFetch = 3, trace = [Badge Disconnected, CallConnect
     0, Badge Connected, Fetch 0 ConnectedMsg, SetTimeout 1 1000, Fetch 1 ConnectedMsg,
     SetTimeout 2 2000, Fetch 2 ConnectedMsg, Badge Disconnected]\<rparr>"
proof -
  have e: "run browser [LoadSettings httpOnly, FetchThrew 0, TimerFired 1, FetchThrew 1, TimerFired
   2, FetchThrew 2] init =
      step browser (FetchThrew 2)
       (run browser [LoadSettings httpOnly, FetchThrew 0, TimerFired 1, FetchThrew 1,
        TimerFired 2] init)"
    by (simp add: run_def)
  show ?thesis unfolding e httpDown_5
    by (simp add: prim_defs ws_defs http_defs native_defs manager_defs event_defs platform_defs scenario_defs Let_def)
qed

lemma httpDown_7:
  "run browser [LoadSettings httpOnly, FetchThrew 0, TimerFired 1, FetchThrew 1, TimerFired
   2, FetchThrew 2, SubtitleEv ''x''] init =
     \<lparr>settings = \<lparr>enabled = True, transportType = ''http'', wsUrl =
     ''ws://localhost:8767'', httpUrl = ''http://localhost:8080/subtitle'', nativeHost =
     ''com.subtitle.streamer''\<rparr>, transport = Some 0, connectionStatus =
     Disconnected, objs = [HttpTransport \<lparr>http_url =
     ''http://localhost:8080/subtitle''\<rparr>], socks = [], ports = [], timers = [],
     nextTimer = 3, fetches = [\<lparr>fid = 3, f_owner = 0, f_attempt = 0, f_msg =
     Subtitle ''x''\<rparr>], nextFetch = 4, trace = [Badge Disconnected, CallConnect 0,
     Badge Connected, Fetch 0 ConnectedMsg, SetTimeout 1 1000, Fetch 1 ConnectedMsg,
     SetTimeout 2 2000, Fetch 2 ConnectedMsg, Badge Disconnected, CallSend 0 (Subtitle
     ''x''), Fetch 3 (Subtitle ''x'')]\<rparr>"
proof -
  have e: "run browser [LoadSettings httpOnly, FetchThrew 0, TimerFired 1, FetchThrew 1, TimerFired
   2, FetchThrew 2, SubtitleEv ''x''] init =
      step browser (SubtitleEv ''x'')
       (run browser [LoadSettings httpOnly, FetchThrew 0, TimerFired 1, FetchThrew 1,
        TimerFired 2, FetchThrew 2] init)"
    by (simp add: run_def)
  show ?thesis unfolding e httpDown_6
    by (simp add: prim_defs ws_defs http_defs native_defs manager_defs event_defs platform_defs scenario_defs Let_def)
qed

lemma sendCalls_transport_send: "sendCalls (transport_send r m w) = sendCalls w"
  by (simp add: transport_send_def ws_send_def http_send_def http_loop_def http_attempt_def
      native_send_def sendCalls_def split: option.splits transport_obj.splits)

lemma sendCalls_emit_CallSend: "sendCalls (emit (CallSend r m) w) = Suc (sendCalls w)"
  by (simp add: sendCalls_def)

lemma httpDown_eq: "httpDown = run browser [LoadSettings httpOnly, FetchThrew 0, TimerFired 1, FetchThrew 1, TimerFired
     2, FetchThrew 2] init"
  by (simp add: httpDown_def)

text \<open>C2, as stated, fails. After three rejected requests the request transport has
  published Disconnected, but it is still the active transport: the next subtitle is
  handed to its \<^verbatim>\<open>send\<close>, which issues a request.\<close>

theorem C2_counterexample:
  "connectionStatus httpDown = Disconnected \<and>
   trace (handleSubtitle (Subtitle ''x'') httpDown) =
     trace httpDown @ [CallSend 0 (Subtitle ''x''), Fetch 3 (Subtitle ''x'')]"
  unfolding httpDown_eq httpDown_6
  by (simp add: handleSubtitle_def transport_send_def prim_defs http_defs)

text \<open>C2, amended. \<^verbatim>\<open>handleSubtitle\<close> does not look at the status: it calls the
  \<^verbatim>\<open>send\<close> of the active transport exactly when \<^verbatim>\<open>enabled\<close> is true and a transport
  exists, and otherwise returns without any change of state and without any effect.\<close>

theorem C2_submit:
  "step P (SubtitleEv x) w = handleSubtitle (Subtitle x) w \<and>
   (enabled (settings w) \<and> transport w = Some r \<longrightarrow>
      handleSubtitle m w = transport_send r m (emit (CallSend r m) w) \<and>
      sendCalls (handleSubtitle m w) = Suc (sendCalls w)) \<and>
   (\<not> enabled (settings w) \<or> transport w = None \<longrightarrow> handleSubtitle m w = w)"
  by (auto simp: step_def handleSubtitle_def sendCalls_transport_send sendCalls_emit_CallSend)

theorem C2_submit_witness:
  "enabled (settings httpDown) \<and> transport httpDown = Some 0 \<and>
   sendCalls (handleSubtitle (Subtitle ''x'') httpDown) = Suc (sendCalls httpDown) \<and>
   transport init = None \<and> handleSubtitle (Subtitle ''x'') init = init"
proof -
  have a: "enabled (settings httpDown)" "transport httpDown = Some 0"
    unfolding httpDown_eq httpDown_6 by simp_all
  have b: "transport init = None" by (simp add: init_def)
  from C2_submit [of browser "''x''" httpDown 0 "Subtitle ''x''"]
    C2_submit [of browser "''x''" init 0 "Subtitle ''x''"] a b
  show ?thesis by blast
qed

section \<open>The request transport\<close>

lemma httpErr_1:
  "run browser [LoadSettings httpOnly] init =
     \<lparr>settings = \<lparr>enabled = True, transportType = ''http'', wsUrl =
     ''ws://localhost:8767'', httpUrl = ''http://localhost:8080/subtitle'', nativeHost =
     ''com.subtitle.streamer''\<rparr>, transport = Some 0, connectionStatus = Connected,
     objs = [HttpTransport \<lparr>http_url = ''http://localhost:8080/subtitle''\<rparr>],
     socks = [], ports = [], timers = [], nextTimer = 1, fetches = [\<lparr>fid = 0,
     f_owner = 0, f_attempt = 0, f_msg = ConnectedMsg\<rparr>], nextFetch = 1, trace =
     [Badge Disconnected, CallConnect 0, Badge Connected, Fetch 0 ConnectedMsg]\<rparr>"
proof -
  have e: "run browser [LoadSettings httpOnly] init =
      step browser (LoadSettings httpOnly) init"
    by (simp add: run_def)
  show ?thesis unfolding e
    by (simp add: prim_defs ws_defs http_defs native_defs manager_defs event_defs platform_defs scenario_defs Let_def)
qed

lemma httpErr_2:
  "run browser [LoadSettings httpOnly, FetchOk 0] init =
     \<lparr>settings = \<lparr>enabled = True, transportType = ''http'', wsUrl =
     ''ws://localhost:8767'', httpUrl = ''http://localhost:8080/subtitle'', nativeHost =
     ''com.subtitle.streamer''\<rparr>, transport = Some 0, connectionStatus = Connected,
     objs = [HttpTransport \<lparr>http_url = ''http://localhost:8080/subtitle''\<rparr>],
     socks = [], ports = [], timers = [], nextTimer = 1, fetches = [], nextFetch = 1, trace
     = [Badge Disconnected, CallConnect 0, Badge Connected, Fetch 0 ConnectedMsg]\<rparr>"
proof -
  have e: "run browser [LoadSettings httpOnly, FetchOk 0] init =
      step browser (FetchOk 0)
       (run browser [LoadSettings httpOnly] init)"
    by (simp add: run_def)
  show ?thesis unfolding e httpErr_1
    by (simp add: prim_defs ws_defs http_defs native_defs manager_defs event_defs platform_defs scenario_defs Let_def)
qed

lemma httpErr_3:
  "run browser [LoadSettings httpOnly, FetchOk 0, SubtitleEv ''x''] init =
     \<lparr>settings = \<lparr>enabled = True, transportType = ''http'', wsUrl =
     ''ws://localhost:8767'', httpUrl = ''http://localhost:8080/subtitle'', nativeHost =
     ''com.subtitle.streamer''\<rparr>, transport = Some 0, connectionStatus = Connected,
     objs = [HttpTransport \<lparr>http_url = ''http://localhost:8080/subtitle''\<rparr>],
     socks = [], ports = [], timers = [], nextTimer = 1, fetches = [\<lparr>fid = 1,
     f_owner = 0, f_attempt = 0, f_msg = Subtitle ''x''\<rparr>], nextFetch = 2, trace =
     [Badge Disconnected, CallConnect 0, Badge Connected, Fetch 0 ConnectedMsg, CallSend 0
     (Subtitle ''x''), Fetch 1 (Subtitle ''x'')]\<rparr>"
proof -
  have e: "run browser [LoadSettings httpOnly, FetchOk 0, SubtitleEv ''x''] init =
      step browser (SubtitleEv ''x'')
       (run browser [LoadSettings httpOnly, FetchOk 0] init)"
    by (simp add: run_def)
  show ?thesis unfolding e httpErr_2
    by (simp add: prim_defs ws_defs http_defs native_defs manager_defs event_defs platform_defs scenario_defs Let_def)
qed

lemma httpErr_4:
  "run browser [LoadSettings httpOnly, FetchOk 0, SubtitleEv ''x'', FetchNotOk 1] init =
     \<lparr>settings = \<lparr>enabled = True, transportType = ''http'', wsUrl =
     ''ws://localhost:8767'', httpUrl = ''http://localhost:8080/subtitle'', nativeHost =
     ''com.subtitle.streamer''\<rparr>, transport = Some 0, connectionStatus = Connected,
     objs = [HttpTransport \<lparr>http_url = ''http://localhost:8080/subtitle''\<rparr>],
     socks = [], ports = [], timers = [], nextTimer = 1, fetches = [\<lparr>fid = 2,
     f_owner = 0, f_attempt = 1, f_msg = Subtitle ''x''\<rparr>], nextFetch = 3, trace =
     [Badge Disconnected, CallConnect 0, Badge Connected, Fetch 0 ConnectedMsg, CallSend 0
     (Subtitle ''x''), Fetch 1 (Subtitle ''x''), Fetch 2 (Subtitle ''x'')]\<rparr>"
proof -
  have e: "run browser [LoadSettings httpOnly, FetchOk 0, SubtitleEv ''x'', FetchNotOk 1] init =
      step browser (FetchNotOk 1)
       (run browser [LoadSettings httpOnly, FetchOk 0, SubtitleEv ''x''] init)"
    by (simp add: run_def)
  show ?thesis unfolding e httpErr_3
    by (simp add: prim_defs ws_defs http_defs native_defs manager_defs event_defs platform_defs scenario_defs Let_def)
qed

lemma httpErr_5:
  "run browser [LoadSettings httpOnly, FetchOk 0, SubtitleEv ''x'', FetchNotOk 1,
   FetchNotOk 2] init =
     \<lparr>settings = \<lparr>enabled = True, transportType = ''http'', wsUrl =
     ''ws://localhost:8767'', httpUrl = ''http://localhost:8080/subtitle'', nativeHost =
     ''com.subtitle.streamer''\<rparr>, transport = Some 0, connectionStatus = Connected,
     objs = [HttpTransport \<lparr>http_url = ''http://localhost:8080/subtitle''\<rparr>],
     socks = [], ports = [], timers = [], nextTimer = 1, fetches = [\<lparr>fid = 3,
     f_owner = 0, f_attempt = 2, f_msg = Subtitle ''x''\<rparr>], nextFetch = 4, trace =
     [Badge Disconnected, CallConnect 0, Badge Connected, Fetch 0 ConnectedMsg, CallSend 0
     (Subtitle ''x''), Fetch 1 (Subtitle ''x''), Fetch 2 (Subtitle ''x''), Fetch 3
     (Subtitle ''x'')]\<rparr>"
proof -
  have e: "run browser [LoadSettings httpOnly, FetchOk 0, SubtitleEv ''x'', FetchNotOk 1,
   FetchNotOk 2] init =
      step browser (FetchNotOk 2)
       (run browser [LoadSettings httpOnly, FetchOk 0, SubtitleEv ''x'', FetchNotOk 1] init)"
    by (simp add: run_def)
  show ?thesis unfolding e httpErr_4
    by (simp add: prim_defs ws_defs http_defs native_defs manager_defs event_defs platform_defs scenario_defs Let_def)
qed

lemma httpErr_6:
  "run browser [LoadSettings httpOnly, FetchOk 0, SubtitleEv ''x'', FetchNotOk 1,
   FetchNotOk 2, FetchNotOk 3] init =
     \<lparr>settings = \<lparr>enabled = True, transportType = ''http'', wsUrl =
     ''ws://localhost:8767'', httpUrl = ''http://localhost:8080/subtitle'', nativeHost =
     ''com.subtitle.streamer''\<rparr>, transport = Some 0, connectionStatus = Connected,
     objs = [HttpTransport \<lparr>http_url = ''http://localhost:8080/subtitle''\<rparr>],
     socks = [], ports = [], timers = [], nextTimer = 1, fetches = [], nextFetch = 4, trace
     = [Badge Disconnected, CallConnect 0, Badge Connected, Fetch 0 ConnectedMsg, CallSend
     0 (Subtitle ''x''), Fetch 1 (Subtitle ''x''), Fetch 2 (Subtitle ''x''), Fetch 3
     (Subtitle ''x'')]\<rparr>"
proof -
  have e: "run browser [LoadSettings httpOnly, FetchOk 0, SubtitleEv ''x'', FetchNotOk 1,
   FetchNotOk 2, FetchNotOk 3] init =
      step browser (FetchNotOk 3)
       (run browser [LoadSettings httpOnly, FetchOk 0, SubtitleEv ''x'', FetchNotOk 1,
        FetchNotOk 2] init)"
    by (simp add: run_def)
  show ?thesis unfolding e httpErr_5
    by (simp add: prim_defs ws_defs http_defs native_defs manager_defs event_defs platform_defs scenario_defs Let_def)
qed
lemma ftp_1:
  "run browser [LoadSettings ftpFeed] init =
     \<lparr>settings = \<lparr>enabled = True, transportType = ''http'', wsUrl =
     ''ws://localhost:8767'', httpUrl = ''ftp://example.com/feed'', nativeHost =
     ''com.subtitle.streamer''\<rparr>, transport = Some 0, connectionStatus = Connected,
     objs = [HttpTransport \<lparr>http_url = ''ftp://example.com/feed''\<rparr>], socks =
     [], ports = [], timers = [], nextTimer = 1, fetches = [\<lparr>fid = 0, f_owner = 0,
     f_attempt = 0, f_msg = ConnectedMsg\<rparr>], nextFetch = 1, trace = [Badge
     Disconnected, CallConnect 0, Badge Connected, Fetch 0 ConnectedMsg]\<rparr>"
proof -
  have e: "run browser [LoadSettings ftpFeed] init =
      step browser (LoadSettings ftpFeed) init"
    by (simp add: run_def)
  show ?thesis unfolding e
    by (simp add: prim_defs ws_defs http_defs native_defs manager_defs event_defs platform_defs scenario_defs Let_def)
qed
lemma bad_1:
  "run browser [LoadSettings noScheme] init =
     \<lparr>settings = \<lparr>enabled = True, transportType = ''http'', wsUrl =
     ''ws://localhost:8767'', httpUrl = ''localhost'', nativeHost =
     ''com.subtitle.streamer''\<rparr>, transport = Some 0, connectionStatus =
     Disconnected, objs = [HttpTransport \<lparr>http_url = ''localhost''\<rparr>], socks =
     [], ports = [], timers = [], nextTimer = 1, fetches = [], nextFetch = 0, trace =
     [Badge Disconnected, CallConnect 0, Badge Disconnected]\<rparr>"
proof -
  have e: "run browser [LoadSettings noScheme] init =
      step browser (LoadSettings noScheme) init"
    by (simp add: run_def)
  show ?thesis unfolding e
    by (simp add: prim_defs ws_defs http_defs native_defs manager_defs event_defs platform_defs scenario_defs Let_def)
qed

lemma httpUp_eq: "httpUp = run browser [LoadSettings httpOnly, FetchOk 0] init"
  by (simp add: httpUp_def)

lemma httpErrors_eq: "httpErrors = run browser [LoadSettings httpOnly, FetchOk 0, SubtitleEv ''x'', FetchNotOk 1,
     FetchNotOk 2, FetchNotOk 3] init"
  by (simp add: httpErrors_def)

text \<open>C4 at a failing input. When the three requests of a \<^verbatim>\<open>send\<close> are rejected
  (\<^verbatim>\<open>fetch\<close> throws), the transport waits 1000 and 2000 ms between them and publishes
  Disconnected after the third: the first run. When the server answers them with an error
  status instead, the other branch of the same loop only logs: the three requests follow
  each other without any wait, and after the last one nothing is published, the status is
  still Connected: the second run.\<close>

theorem C4_error_responses:
  "trace httpDown =
     [Badge Disconnected, CallConnect 0, Badge Connected, Fetch 0 ConnectedMsg,
      SetTimeout 1 1000, Fetch 1 ConnectedMsg, SetTimeout 2 2000, Fetch 2 ConnectedMsg,
      Badge Disconnected] \<and>
   connectionStatus httpUp = Connected \<and>
   trace httpErrors = trace httpUp @ [CallSend 0 (Subtitle ''x''), Fetch 1 (Subtitle ''x''),
     Fetch 2 (Subtitle ''x''), Fetch 3 (Subtitle ''x'')] \<and>
   fetches httpErrors = [] \<and> timers httpErrors = [] \<and>
   connectionStatus httpErrors = Connected"
  unfolding httpDown_eq httpUp_eq httpErrors_eq httpDown_6 httpErr_2 httpErr_6 by simp

text \<open>C8, as stated, fails: the \<^verbatim>\<open>URL\<close> constructor accepts addresses of any scheme, so
  a request transport configured with an \<^verbatim>\<open>ftp:\<close> address publishes Connected and sends
  the Connected record.\<close>

theorem C8_counterexample:
  "\<not> isHttpUri ''ftp://example.com/feed'' \<and>
   connectionStatus (run browser [LoadSettings ftpFeed] init) = Connected \<and>
   trace (run browser [LoadSettings ftpFeed] init) =
     [Badge Disconnected, CallConnect 0, Badge Connected, Fetch 0 ConnectedMsg]"
  unfolding ftp_1 by (simp add: isHttpUri_def startsWith_def)

text \<open>C8, amended. \<^verbatim>\<open>connect\<close> of the request transport publishes Connected and sends
  the Connected record if and only if the \<^verbatim>\<open>URL\<close> constructor accepts the endpoint;
  otherwise it publishes Disconnected and does nothing else: no request, no timer.\<close>

theorem C8_http_connect:
  "getHTTP r w = Some t \<longrightarrow>
     (urlOk P (http_url t) \<longrightarrow>
        connectionStatus (http_connect P r w) = Connected \<and>
        trace (http_connect P r w) = trace w @ [Badge Connected, Fetch (nextFetch w) ConnectedMsg]) \<and>
     (\<not> urlOk P (http_url t) \<longrightarrow> http_connect P r w = updateBadge Disconnected w)"
  by (simp add: http_connect_def http_send_def http_loop_def http_attempt_def maxRetries_def)

theorem C8_http_connect_witness:
  "getHTTP 0 httpUp = Some \<lparr>http_url = ''http://localhost:8080/subtitle''\<rparr> \<and>
   urlOk browser ''http://localhost:8080/subtitle'' \<and>
   connectionStatus (http_connect browser 0 httpUp) = Connected \<and>
   trace (http_connect browser 0 httpUp) = trace httpUp @ [Badge Connected, Fetch 1 ConnectedMsg] \<and>
   getHTTP 0 (run browser [LoadSettings noScheme] init) = Some \<lparr>http_url = ''localhost''\<rparr> \<and>
   \<not> urlOk browser ''localhost'' \<and>
   http_connect browser 0 (run browser [LoadSettings noScheme] init) =
     updateBadge Disconnected (run browser [LoadSettings noScheme] init)"
proof -
  have a: "getHTTP 0 httpUp = Some \<lparr>http_url = ''http://localhost:8080/subtitle''\<rparr>"
    and n: "nextFetch httpUp = 1"
    unfolding httpUp_eq httpErr_2 by (simp_all add: getHTTP_def getObj_def)
  have b: "getHTTP 0 (run browser [LoadSettings noScheme] init) = Some \<lparr>http_url = ''localhost''\<rparr>"
    unfolding bad_1 by (simp add: getHTTP_def getObj_def)
  have c: "urlOk browser ''http://localhost:8080/subtitle''" "\<not> urlOk browser ''localhost''"
    by (simp_all add: platform_defs)
  from C8_http_connect [of 0 httpUp _ browser] a n c(1)
  have d: "connectionStatus (http_connect browser 0 httpUp) = Connected \<and>
     trace (http_connect browser 0 httpUp) = trace httpUp @ [Badge Connected, Fetch 1 ConnectedMsg]"
    by simp
  from C8_http_connect [of 0 "run browser [LoadSettings noScheme] init" _ browser] b c(2)
  have e: "http_connect browser 0 (run browser [LoadSettings noScheme] init) =
     updateBadge Disconnected (run browser [LoadSettings noScheme] init)"
    by simp
  from a b c d e show ?thesis by simp
qed

section \<open>The pipe transport\<close>

lemma pipe_1:
  "run browser [LoadSettings nativeOnly] init =
     \<lparr>settings = \<lparr>enabled = True, transportType = ''native'', wsUrl =
     ''ws://localhost:8767'', httpUrl = ''http://localhost:8080/subtitle'', nativeHost =
     ''com.subtitle.streamer''\<rparr>, transport = Some 0, connectionStatus = Connected,
     objs = [NativeTransport \<lparr>hostName = ''com.subtitle.streamer'', port = Some
     0\<rparr>], socks = [], ports = [(0, True)], timers = [], nextTimer = 1, fetches = [],
     nextFetch = 0, trace = [Badge Disconnected, CallConnect 0, Badge Connecting,
     ConnectNative 0, Badge Connected, PostMessage 0 ConnectedMsg]\<rparr>"
proof -
  have e: "run browser [LoadSettings nativeOnly] init =
      step browser (LoadSettings nativeOnly) init"
    by (simp add: run_def)
  show ?thesis unfolding e
    by (simp add: prim_defs ws_defs http_defs native_defs manager_defs event_defs platform_defs scenario_defs Let_def)
qed

lemma pipe_2:
  "run browser [LoadSettings nativeOnly, PortDisconnected 0] init =
     \<lparr>settings = \<lparr>enabled = True, transportType = ''native'', wsUrl =
     ''ws://localhost:8767'', httpUrl = ''http://localhost:8080/subtitle'', nativeHost =
     ''com.subtitle.streamer''\<rparr>, transport = Some 0, connectionStatus =
     Disconnected, objs = [NativeTransport \<lparr>hostName = ''com.subtitle.streamer'',
     port = Some 0\<rparr>], socks = [], ports = [(0, False)], timers = [], nextTimer = 1,
     fetches = [], nextFetch = 0, trace = [Badge Disconnected, CallConnect 0, Badge
     Connecting, ConnectNative 0, Badge Connected, PostMessage 0 ConnectedMsg, Badge
     Disconnected]\<rparr>"
proof -
  have e: "run browser [LoadSettings nativeOnly, PortDisconnected 0] init =
      step browser (PortDisconnected 0)
       (run browser [LoadSettings nativeOnly] init)"
    by (simp add: run_def)
  show ?thesis unfolding e pipe_1
    by (simp add: prim_defs ws_defs http_defs native_defs manager_defs event_defs platform_defs scenario_defs Let_def)
qed

lemma pipe_3:
  "run browser [LoadSettings nativeOnly, PortDisconnected 0, SubtitleEv ''x''] init =
     \<lparr>settings = \<lparr>enabled = True, transportType = ''native'', wsUrl =
     ''ws://localhost:8767'', httpUrl = ''http://localhost:8080/subtitle'', nativeHost =
     ''com.subtitle.streamer''\<rparr>, transport = Some 0, connectionStatus =
     Disconnected, objs = [NativeTransport \<lparr>hostName = ''com.subtitle.streamer'',
     port = Some 0\<rparr>], socks = [], ports = [(0, False)], timers = [], nextTimer = 1,
     fetches = [], nextFetch = 0, trace = [Badge Disconnected, CallConnect 0, Badge
     Connecting, ConnectNative 0, Badge Connected, PostMessage 0 ConnectedMsg, Badge
     Disconnected, CallSend 0 (Subtitle ''x''), Badge Disconnected]\<rparr>"
proof -
  have e: "run browser [LoadSettings nativeOnly, PortDisconnected 0, SubtitleEv ''x''] init =
      step browser (SubtitleEv ''x'')
       (run browser [LoadSettings nativeOnly, PortDisconnected 0] init)"
    by (simp add: run_def)
  show ?thesis unfolding e pipe_2
    by (simp add: prim_defs ws_defs http_defs native_defs manager_defs event_defs platform_defs scenario_defs Let_def)
qed










section \<open>What the transports leave to the manager\<close>

lemma calls_prims [simp]:
  "calls (emit e w) = calls w @ (case e of CallConnect r \<Rightarrow> [e] | CallDisconnect r \<Rightarrow> [e]
     | CallSend r m \<Rightarrow> [e] | _ \<Rightarrow> [])"
  "calls (updateBadge st w) = calls w"
  "calls (addTimer c d w) = calls w" "calls (dropTimer i w) = calls w"
  "calls (setSockState s rs w) = calls w" "calls (modWS r f w) = calls w"
  "calls (modNative r g w) = calls w"
  by (simp_all add: calls_def emit_def updateBadge_def split: effect.splits)

lemma calls_upd [simp]:
  "calls (w\<lparr>settings := a_settings\<rparr>) = calls w"
  "calls (w\<lparr>transport := a_transport\<rparr>) = calls w"
  "calls (w\<lparr>connectionStatus := a_connectionStatus\<rparr>) = calls w"
  "calls (w\<lparr>objs := a_objs\<rparr>) = calls w"
  "calls (w\<lparr>socks := a_socks\<rparr>) = calls w"
  "calls (w\<lparr>ports := a_ports\<rparr>) = calls w"
  "calls (w\<lparr>timers := a_timers\<rparr>) = calls w"
  "calls (w\<lparr>nextTimer := a_nextTimer\<rparr>) = calls w"
  "calls (w\<lparr>fetches := a_fetches\<rparr>) = calls w"
  "calls (w\<lparr>nextFetch := a_nextFetch\<rparr>) = calls w"
  by (simp_all add: calls_def)

lemmas timer_prims = setTimeout_def setInterval_def clearTimeout_def clearInterval_def

lemma kept_ws_send:
  "settings (ws_send r m w) = settings w \<and> transport (ws_send r m w) = transport w \<and>
   length (objs (ws_send r m w)) = length (objs w) \<and> calls (ws_send r m w) = calls w"
  by (simp add: ws_send_def split: option.splits)

lemma kept_stopHeartbeat:
  "settings (stopHeartbeat r w) = settings w \<and> transport (stopHeartbeat r w) = transport w \<and>
   length (objs (stopHeartbeat r w)) = length (objs w) \<and> calls (stopHeartbeat r w) = calls w"
  by (simp add: stopHeartbeat_def timer_prims split: option.splits)

lemma kept_scheduleReconnect:
  "settings (scheduleReconnect r w) = settings w \<and>
   transport (scheduleReconnect r w) = transport w \<and>
   length (objs (scheduleReconnect r w)) = length (objs w) \<and>
   calls (scheduleReconnect r w) = calls w"
  by (simp add: scheduleReconnect_def timer_prims split: option.splits)

lemma kept_ws_connect:
  "settings (ws_connect P r w) = settings w \<and> transport (ws_connect P r w) = transport w \<and>
   length (objs (ws_connect P r w)) = length (objs w) \<and> calls (ws_connect P r w) = calls w"
  by (simp add: ws_connect_def Let_def kept_scheduleReconnect split: option.splits)

lemma kept_sockClose:
  "settings (sockClose s w) = settings w \<and> transport (sockClose s w) = transport w \<and>
   length (objs (sockClose s w)) = length (objs w) \<and> calls (sockClose s w) = calls w"
  by (simp add: sockClose_def)

lemma kept_ws_disconnect:
  "settings (ws_disconnect r w) = settings w \<and> transport (ws_disconnect r w) = transport w \<and>
   length (objs (ws_disconnect r w)) = length (objs w) \<and> calls (ws_disconnect r w) = calls w"
  by (simp add: ws_disconnect_def Let_def kept_sockClose kept_ws_send kept_stopHeartbeat
      timer_prims split: option.splits)

lemma kept_http_send:
  "settings (http_send r m w) = settings w \<and> transport (http_send r m w) = transport w \<and>
   length (objs (http_send r m w)) = length (objs w) \<and> calls (http_send r m w) = calls w"
  by (simp add: http_send_def http_loop_def http_attempt_def split: option.splits)

lemma kept_http_connect:
  "settings (http_connect P r w) = settings w \<and> transport (http_connect P r w) = transport w \<and>
   length (objs (http_connect P r w)) = length (objs w) \<and> calls (http_connect P r w) = calls w"
  by (simp add: http_connect_def kept_http_send split: option.splits)

lemma kept_http_disconnect:
  "settings (http_disconnect r w) = settings w \<and> transport (http_disconnect r w) = transport w \<and>
   length (objs (http_disconnect r w)) = length (objs w) \<and> calls (http_disconnect r w) = calls w"
  by (simp add: http_disconnect_def kept_http_send)

lemma kept_native_send:
  "settings (native_send r m w) = settings w \<and> transport (native_send r m w) = transport w \<and>
   length (objs (native_send r m w)) = length (objs w) \<and> calls (native_send r m w) = calls w"
  by (simp add: native_send_def split: option.splits)

lemma kept_native_connect:
  "settings (native_connect P r w) = settings w \<and>
   transport (native_connect P r w) = transport w \<and>
   length (objs (native_connect P r w)) = length (objs w) \<and>
   calls (native_connect P r w) = calls w"
  by (simp add: native_connect_def Let_def kept_native_send split: option.splits)

lemma kept_native_disconnect:
  "settings (native_disconnect r w) = settings w \<and>
   transport (native_disconnect r w) = transport w \<and>
   length (objs (native_disconnect r w)) = length (objs w) \<and>
   calls (native_disconnect r w) = calls w"
  by (simp add: native_disconnect_def portDisconnect_def kept_native_send split: option.splits)

lemma kept_transport_connect:
  "settings (transport_connect P r w) = settings w \<and>
   transport (transport_connect P r w) = transport w \<and>
   length (objs (transport_connect P r w)) = length (objs w) \<and>
   calls (transport_connect P r w) = calls w"
  by (simp add: transport_connect_def kept_ws_connect kept_http_connect kept_native_connect
      split: option.splits transport_obj.splits)

lemma kept_transport_disconnect:
  "settings (transport_disconnect r w) = settings w \<and>
   transport (transport_disconnect r w) = transport w \<and>
   length (objs (transport_disconnect r w)) = length (objs w) \<and>
   calls (transport_disconnect r w) = calls w"
  by (simp add: transport_disconnect_def kept_ws_disconnect kept_http_disconnect
      kept_native_disconnect split: option.splits transport_obj.splits)

lemma kept_transport_send:
  "settings (transport_send r m w) = settings w \<and>
   transport (transport_send r m w) = transport w \<and>
   length (objs (transport_send r m w)) = length (objs w) \<and>
   calls (transport_send r m w) = calls w"
  by (simp add: transport_send_def kept_ws_send kept_http_send kept_native_send
      split: option.splits transport_obj.splits)

section \<open>The calls of the manager\<close>

lemma disconnectTransport_does:
  "settings (disconnectTransport w) = settings w \<and> transport (disconnectTransport w) = None \<and>
   length (objs (disconnectTransport w)) = length (objs w) \<and>
   connectionStatus (disconnectTransport w) = Disconnected \<and>
   calls (disconnectTransport w) =
     calls w @ (case transport w of None \<Rightarrow> [] | Some r \<Rightarrow> [CallDisconnect r])"
  by (simp add: disconnectTransport_def kept_transport_disconnect split: option.splits)

lemma connectTransport_does:
  "settings (connectTransport P w) = settings w \<and>
   transport (connectTransport P w) =
     (if newTransport (settings w) = None then None else Some (length (objs w))) \<and>
   calls (connectTransport P w) =
     calls w @ (case transport w of None \<Rightarrow> [] | Some r \<Rightarrow> [CallDisconnect r]) @
       (if newTransport (settings w) = None then [] else [CallConnect (length (objs w))])"
  by (simp add: connectTransport_def Let_def disconnectTransport_does kept_transport_connect
      split: option.splits)


lemma needsReconnect_iff: "needsReconnect s u \<longleftrightarrow> u \<noteq> fullUpdate s"
  by (cases u) (auto simp: needsReconnect_def fullUpdate_def)

lemma mergeSettings_full: "mergeSettings s (fullUpdate s) = s"
  by (simp add: mergeSettings_def fullUpdate_def)

lemma mergeSettings_complete: "complete u \<Longrightarrow> fullUpdate (mergeSettings s u) = u"
  by (cases u) (auto simp: mergeSettings_def fullUpdate_def complete_def)

lemma updateSettings_same:
  "u = fullUpdate (settings w) \<Longrightarrow> updateSettings P u w = saveSettings w"
  by (simp add: updateSettings_def Let_def needsReconnect_iff mergeSettings_full)

lemma updateSettings_changed:
  assumes "u \<noteq> fullUpdate (settings w)"
  shows "settings (updateSettings P u w) = mergeSettings (settings w) u \<and>
    transport (updateSettings P u w) =
      (if enabled (mergeSettings (settings w) u) \<and> newTransport (mergeSettings (settings w) u) \<noteq> None
       then Some (length (objs w)) else None) \<and>
    calls (updateSettings P u w) =
      calls w @ (case transport w of None \<Rightarrow> [] | Some r \<Rightarrow> [CallDisconnect r]) @
        (if enabled (mergeSettings (settings w) u) \<and> newTransport (mergeSettings (settings w) u) \<noteq> None
         then [CallConnect (length (objs w))] else [])"
  using assms
  by (simp add: updateSettings_def Let_def needsReconnect_iff saveSettings_def
      disconnectTransport_does connectTransport_does)

lemma settings_updateSettings:
  "settings (updateSettings P u w) = mergeSettings (settings w) u"
  by (cases "u = fullUpdate (settings w)")
    (simp_all add: updateSettings_same updateSettings_changed saveSettings_def mergeSettings_full)

section \<open>Applying a configuration\<close>

lemma wsStarted_eq: "wsStarted = run browser [LoadSettings noUpdate] init"
  by (simp add: wsStarted_def)

lemma wsStarted_facts:
  "settings wsStarted = defaultSettings" "transport wsStarted = Some 0"
  "length (objs wsStarted) = 1" "calls wsStarted = [CallConnect 0]"
  unfolding wsStarted_eq refused_1 by (simp_all add: defaultSettings_def calls_def)

text \<open>C3, as stated, fails: with the socket transport selected, a settings object that
  differs from the current settings only in the address of the request transport leaves
  the effective configuration as it is, and the manager still disconnects the socket
  transport and connects a new one.\<close>

theorem C3_counterexample:
  "effective (mergeSettings (settings wsStarted) otherHttpUrl) = effective (settings wsStarted) \<and>
   transport wsStarted = Some 0 \<and>
   transport (updateSettings browser otherHttpUrl wsStarted) = Some 1 \<and>
   calls (updateSettings browser otherHttpUrl wsStarted) =
     [CallConnect 0, CallDisconnect 0, CallConnect 1]"
proof -
  have n: "otherHttpUrl \<noteq> fullUpdate (settings wsStarted)"
    by (simp add: wsStarted_facts otherHttpUrl_def fullUpdate_def defaultSettings_def)
  have m: "mergeSettings (settings wsStarted) otherHttpUrl =
      defaultSettings\<lparr>httpUrl := ''http://localhost:9090/other''\<rparr>"
    by (simp add: wsStarted_facts otherHttpUrl_def fullUpdate_def defaultSettings_def
        mergeSettings_def)
  have e: "effective (mergeSettings (settings wsStarted) otherHttpUrl) =
      effective (settings wsStarted)"
    unfolding m by (simp add: wsStarted_facts effective_def endpoint_def defaultSettings_def)
  from updateSettings_changed [OF n, of browser] e show ?thesis
    unfolding m by (simp add: wsStarted_facts newTransport_def defaultSettings_def)
qed

text \<open>C3, amended. \<^verbatim>\<open>updateSettings\<close> compares the five fields of the settings object
  with the current settings, one by one. If they are all present and equal, it only saves
  the settings: the transport, the store and the calls into the transports are as before.
  Otherwise it calls \<^verbatim>\<open>disconnect\<close> of the active transport, if there is one, and, if the
  merged settings are enabled and name a known kind, creates a new transport and calls
  its \<^verbatim>\<open>connect\<close>. A second call with the same complete settings object only saves.\<close>

theorem C3_updateSettings:
  "(needsReconnect (settings w) u \<longleftrightarrow> u \<noteq> fullUpdate (settings w)) \<and>
   (u = fullUpdate (settings w) \<longrightarrow>
      updateSettings P u w = saveSettings w \<and>
      transport (updateSettings P u w) = transport w \<and>
      objs (updateSettings P u w) = objs w \<and>
      calls (updateSettings P u w) = calls w) \<and>
   (u \<noteq> fullUpdate (settings w) \<longrightarrow>
      transport (updateSettings P u w) =
        (if enabled (mergeSettings (settings w) u) \<and>
            newTransport (mergeSettings (settings w) u) \<noteq> None
         then Some (length (objs w)) else None) \<and>
      calls (updateSettings P u w) =
        calls w @ (case transport w of None \<Rightarrow> [] | Some r \<Rightarrow> [CallDisconnect r]) @
          (if enabled (mergeSettings (settings w) u) \<and>
              newTransport (mergeSettings (settings w) u) \<noteq> None
           then [CallConnect (length (objs w))] else [])) \<and>
   (complete u \<longrightarrow>
      updateSettings P u (updateSettings P u w) = saveSettings (updateSettings P u w))"
proof (intro conjI impI)
  show "needsReconnect (settings w) u \<longleftrightarrow> u \<noteq> fullUpdate (settings w)"
    by (rule needsReconnect_iff)
next
  assume "u = fullUpdate (settings w)"
  then have e: "updateSettings P u w = saveSettings w" by (rule updateSettings_same)
  show "updateSettings P u w = saveSettings w" by (rule e)
  show "transport (updateSettings P u w) = transport w" unfolding e by (simp add: saveSettings_def)
  show "objs (updateSettings P u w) = objs w" unfolding e by (simp add: saveSettings_def)
  show "calls (updateSettings P u w) = calls w" unfolding e by (simp add: saveSettings_def)
next
  assume n: "u \<noteq> fullUpdate (settings w)"
  from updateSettings_changed [OF n, of P]
  show "transport (updateSettings P u w) =
        (if enabled (mergeSettings (settings w) u) \<and>
            newTransport (mergeSettings (settings w) u) \<noteq> None
         then Some (length (objs w)) else None)"
    and "calls (updateSettings P u w) =
        calls w @ (case transport w of None \<Rightarrow> [] | Some r \<Rightarrow> [CallDisconnect r]) @
          (if enabled (mergeSettings (settings w) u) \<and>
              newTransport (mergeSettings (settings w) u) \<noteq> None
           then [CallConnect (length (objs w))] else [])"
    by simp_all
next
  assume c: "complete u"
  have "u = fullUpdate (settings (updateSettings P u w))"
    by (simp add: settings_updateSettings mergeSettings_complete [OF c])
  then show "updateSettings P u (updateSettings P u w) = saveSettings (updateSettings P u w)"
    by (rule updateSettings_same)
qed

theorem C3_updateSettings_witness:
  "updateSettings browser (fullUpdate (settings wsStarted)) wsStarted = saveSettings wsStarted \<and>
   calls (updateSettings browser (fullUpdate (settings wsStarted)) wsStarted) = calls wsStarted \<and>
   otherHttpUrl \<noteq> fullUpdate (settings wsStarted) \<and>
   transport (updateSettings browser otherHttpUrl wsStarted) = Some 1 \<and>
   complete otherHttpUrl \<and>
   updateSettings browser otherHttpUrl (updateSettings browser otherHttpUrl wsStarted) =
     saveSettings (updateSettings browser otherHttpUrl wsStarted)"
proof -
  have n: "otherHttpUrl \<noteq> fullUpdate (settings wsStarted)"
    by (simp add: wsStarted_facts otherHttpUrl_def fullUpdate_def defaultSettings_def)
  have c: "complete otherHttpUrl"
    by (simp add: complete_def otherHttpUrl_def fullUpdate_def)
  have m: "enabled (mergeSettings (settings wsStarted) otherHttpUrl) \<and>
      newTransport (mergeSettings (settings wsStarted) otherHttpUrl) \<noteq> None"
    by (simp add: wsStarted_facts otherHttpUrl_def fullUpdate_def defaultSettings_def
        mergeSettings_def newTransport_def)
  from C3_updateSettings [of wsStarted "fullUpdate (settings wsStarted)" browser]
  have 1: "updateSettings browser (fullUpdate (settings wsStarted)) wsStarted = saveSettings wsStarted \<and>
      calls (updateSettings browser (fullUpdate (settings wsStarted)) wsStarted) = calls wsStarted"
    by blast
  from C3_updateSettings [of wsStarted otherHttpUrl browser] n m
  have 2: "transport (updateSettings browser otherHttpUrl wsStarted) = Some (length (objs wsStarted))"
    by presburger
  from C3_updateSettings [of wsStarted otherHttpUrl browser] c
  have 3: "updateSettings browser otherHttpUrl (updateSettings browser otherHttpUrl wsStarted) =
        saveSettings (updateSettings browser otherHttpUrl wsStarted)"
    by blast
  from 2 have 4: "transport (updateSettings browser otherHttpUrl wsStarted) = Some 1"
    by (simp add: wsStarted_facts)
  from n c 1 3 4 show ?thesis by blast
qed

text \<open>C10, as stated, fails: a settings object with nothing but \<^verbatim>\<open>enabled: false\<close> omits
  four of the fields, and the manager disconnects the transport without connecting a new
  one.\<close>

theorem C10_counterexample:
  "new_wsUrl disable = None \<and> transport wsStarted = Some 0 \<and>
   transport (updateSettings browser disable wsStarted) = None \<and>
   calls (updateSettings browser disable wsStarted) = [CallConnect 0, CallDisconnect 0]"
proof -
  have n: "disable \<noteq> fullUpdate (settings wsStarted)"
    by (simp add: disable_def noUpdate_def fullUpdate_def)
  have m: "\<not> enabled (mergeSettings (settings wsStarted) disable)"
    by (simp add: disable_def noUpdate_def mergeSettings_def)
  from updateSettings_changed [OF n, of browser] m show ?thesis
    by (simp add: wsStarted_facts disable_def noUpdate_def)
qed

text \<open>C10, amended. A settings object that omits one of the five fields always counts as
  a change, also when the merged settings are the previous ones: the manager calls
  \<^verbatim>\<open>disconnect\<close> of the active transport and, if the merged settings are enabled and name
  a known kind, creates a new transport and calls its \<^verbatim>\<open>connect\<close>.\<close>

theorem C10_omitted_field:
  "new_enabled u = None \<or> new_transportType u = None \<or> new_wsUrl u = None \<or>
   new_httpUrl u = None \<or> new_nativeHost u = None \<longrightarrow>
     needsReconnect (settings w) u \<and>
     transport (updateSettings P u w) =
       (if enabled (mergeSettings (settings w) u) \<and>
           newTransport (mergeSettings (settings w) u) \<noteq> None
        then Some (length (objs w)) else None) \<and>
     calls (updateSettings P u w) =
       calls w @ (case transport w of None \<Rightarrow> [] | Some r \<Rightarrow> [CallDisconnect r]) @
         (if enabled (mergeSettings (settings w) u) \<and>
             newTransport (mergeSettings (settings w) u) \<noteq> None
          then [CallConnect (length (objs w))] else [])"
proof
  assume o: "new_enabled u = None \<or> new_transportType u = None \<or> new_wsUrl u = None \<or>
    new_httpUrl u = None \<or> new_nativeHost u = None"
  then have n: "u \<noteq> fullUpdate (settings w)"
    by (auto simp: fullUpdate_def)
  with updateSettings_changed [OF n, of P] show "needsReconnect (settings w) u \<and>
     transport (updateSettings P u w) =
       (if enabled (mergeSettings (settings w) u) \<and>
           newTransport (mergeSettings (settings w) u) \<noteq> None
        then Some (length (objs w)) else None) \<and>
     calls (updateSettings P u w) =
       calls w @ (case transport w of None \<Rightarrow> [] | Some r \<Rightarrow> [CallDisconnect r]) @
         (if enabled (mergeSettings (settings w) u) \<and>
             newTransport (mergeSettings (settings w) u) \<noteq> None
          then [CallConnect (length (objs w))] else [])"
    by (simp add: needsReconnect_iff)
qed

theorem C10_omitted_field_witness:
  "new_enabled noUpdate = None \<and>
   mergeSettings (settings wsStarted) noUpdate = settings wsStarted \<and>
   needsReconnect (settings wsStarted) noUpdate \<and>
   transport (updateSettings browser noUpdate wsStarted) = Some 1 \<and>
   calls (updateSettings browser noUpdate wsStarted) =
     [CallConnect 0, CallDisconnect 0, CallConnect 1]"
proof -
  have a: "new_enabled noUpdate = None" by (simp add: noUpdate_def)
  have m: "mergeSettings (settings wsStarted) noUpdate = settings wsStarted"
    by (simp add: mergeSettings_def noUpdate_def)
  have k: "enabled (settings wsStarted) \<and> newTransport (settings wsStarted) \<noteq> None"
    by (simp add: wsStarted_facts defaultSettings_def newTransport_def)
  from C10_omitted_field [of noUpdate wsStarted browser] a k show ?thesis
    unfolding m by (simp add: wsStarted_facts)
qed

end
